theory Spec2Isabelle
  imports Main "HOL-Library.Word" "HOL-Library.Signed_Division"
begin

section \<open>The metrics collector of \<^verbatim>\<open>agent/collector/metrics.go\<close>\<close>

text \<open>
  The collector drives a remote host through an \<^verbatim>\<open>SSHCollectingAgent\<close>: it
  creates a Prometheus snapshot, drops the blocks outside the requested time span,
  optionally packs the snapshot into a tarball, downloads it and removes what it left
  on the host. The embedding follows the source function by function. A Go \<^verbatim>\<open>string\<close>
  or byte buffer is a \<open>string\<close> (a list of bytes), an \<^verbatim>\<open>int64\<close> is a \<open>64 word\<close>
  read as two's complement, an \<^verbatim>\<open>error\<close> is the value \<open>errors_New msg\<close> whose
  \<^verbatim>\<open>Error()\<close> text is \<open>msg\<close>, and \<^verbatim>\<open>nil\<close> is \<open>None\<close>.
\<close>

subsection \<open>Values of the Go standard library the collector relies on\<close>

datatype error = errors_New (error_Error: string)

text \<open>
  \<^verbatim>\<open>fmt.Sprintf("%d", n)\<close>: the decimal digits of \<open>n\<close>, with a minus sign when
  it is negative.
\<close>

definition digit_char :: "nat \<Rightarrow> char" where
  "digit_char d = ''0123456789'' ! d"

fun nat_digits :: "nat \<Rightarrow> string" where
  "nat_digits n =
     (if n < 10 then [digit_char n] else nat_digits (n div 10) @ [digit_char (n mod 10)])"

declare nat_digits.simps [simp del]

definition fmt_d :: "int \<Rightarrow> string" where
  "fmt_d n = (if n < 0 then CHR ''-'' # nat_digits (nat (- n)) else nat_digits (nat n))"

text \<open>
  \<^verbatim>\<open>strings.Join(elems, sep)\<close> and \<^verbatim>\<open>filepath.Join\<close> on a Unix host. The
  latter joins the elements from the first non-empty one on with a slash and cleans
  the result lexically (\<^verbatim>\<open>filepath.Clean\<close>): empty and \<^verbatim>\<open>.\<close> elements go, a
  \<^verbatim>\<open>..\<close> takes the element before it with it (or is dropped at the root, or is
  kept at the head of a relative path), and an empty result is \<^verbatim>\<open>.\<close>.
\<close>

fun strings_Join :: "string list \<Rightarrow> string \<Rightarrow> string" where
  "strings_Join [] sep = []"
| "strings_Join [e] sep = e"
| "strings_Join (e # es) sep = e @ sep @ strings_Join es sep"

fun split_on :: "char \<Rightarrow> string \<Rightarrow> string list" where
  "split_on c [] = [[]]"
| "split_on c (x # xs) =
     (if x = c then [] # split_on c xs
      else (case split_on c xs of [] \<Rightarrow> [[x]] | w # ws \<Rightarrow> (x # w) # ws))"

fun clean_elems :: "bool \<Rightarrow> string list \<Rightarrow> string list \<Rightarrow> string list" where
  "clean_elems rooted out [] = out"
| "clean_elems rooted out (e # es) =
     (if e = [] \<or> e = ''.'' then clean_elems rooted out es
      else if e = ''..'' then
        (if out \<noteq> [] \<and> last out \<noteq> ''..'' then clean_elems rooted (butlast out) es
         else if rooted then clean_elems rooted out es
         else clean_elems rooted (out @ [''..'']) es)
      else clean_elems rooted (out @ [e]) es)"

definition filepath_Clean :: "string \<Rightarrow> string" where
  "filepath_Clean path =
     (if path = [] then ''.''
      else
        (let rooted = (hd path = CHR ''/'');
             out = clean_elems rooted [] (split_on CHR ''/'' path);
             res = (if rooted then ''/'' else []) @ strings_Join out ''/''
         in if res = [] then ''.'' else res))"

definition filepath_Join :: "string list \<Rightarrow> string" where
  "filepath_Join elem =
     (case dropWhile (\<lambda>e. e = []) elem of
        [] \<Rightarrow> []
      | es \<Rightarrow> filepath_Clean (strings_Join es ''/''))"

text \<open>
  \<^verbatim>\<open>strings.Fields\<close>: the maximal runs of bytes between white space, where white
  space is what \<^verbatim>\<open>unicode.IsSpace\<close> accepts, read in UTF-8. \<open>space_width s\<close> is
  the number of bytes of the white-space character \<open>s\<close> starts with, or 0.
\<close>

definition space_width :: "string \<Rightarrow> nat" where
  "space_width s =
     (case s of
        [] \<Rightarrow> 0
      | a # r \<Rightarrow>
          if a \<in> {CHR 0x09, CHR 0x0A, CHR 0x0B, CHR 0x0C, CHR 0x0D, CHR 0x20} then 1
          else if a = CHR 0xC2 then
            (case r of b # _ \<Rightarrow> if b = CHR 0x85 \<or> b = CHR 0xA0 then 2 else 0 | [] \<Rightarrow> 0)
          else if take 3 s \<in> {[CHR 0xE1, CHR 0x9A, CHR 0x80], [CHR 0xE2, CHR 0x80, CHR 0xA8],
                 [CHR 0xE2, CHR 0x80, CHR 0xA9], [CHR 0xE2, CHR 0x80, CHR 0xAF],
                 [CHR 0xE2, CHR 0x81, CHR 0x9F], [CHR 0xE3, CHR 0x80, CHR 0x80]} then 3
          else if take 2 s = [CHR 0xE2, CHR 0x80] then
            (case drop 2 s of
               c # _ \<Rightarrow> if of_char c \<in> {(0x80 :: nat) .. 0x8A} then 3 else 0
             | [] \<Rightarrow> 0)
          else 0)"

fun fields_from :: "nat \<Rightarrow> string \<Rightarrow> string \<Rightarrow> string list" where
  "fields_from k cur [] = (if cur = [] then [] else [cur])"
| "fields_from (Suc k) cur (c # cs) = fields_from k cur cs"
| "fields_from 0 cur (c # cs) =
     (let w = space_width (c # cs)
      in if w = 0 then fields_from 0 (cur @ [c]) cs
         else (if cur = [] then [] else [cur]) @ fields_from (w - 1) [] cs)"

definition strings_Fields :: "string \<Rightarrow> string list" where
  "strings_Fields s = fields_from 0 [] s"

text \<open>
  \<^verbatim>\<open>int64\<close> division and remainder truncate towards zero; both divisors in the
  collector are positive constants, so neither can overflow or divide by zero.
\<close>

definition int64_quo :: "64 word \<Rightarrow> 64 word \<Rightarrow> 64 word" where
  "int64_quo a b = word_of_int (sint a sdiv sint b)"

definition int64_rem :: "64 word \<Rightarrow> 64 word \<Rightarrow> 64 word" where
  "int64_rem a b = word_of_int (sint a smod sint b)"

text \<open>
  A \<^verbatim>\<open>time.Time\<close> is modelled by what its methods \<^verbatim>\<open>sec()\<close> (seconds since
  1 January of year 1, an \<^verbatim>\<open>int64\<close>) and \<^verbatim>\<open>nsec()\<close> (nanoseconds within the
  second, an \<^verbatim>\<open>int32\<close>) return. The location only matters to printing, so
  \<^verbatim>\<open>UTC()\<close> leaves the value as it is. \<^verbatim>\<open>time.Unix\<close> builds a time without a
  monotonic clock reading, so \<^verbatim>\<open>After\<close> and \<^verbatim>\<open>Before\<close> of such a time compare
  seconds first and nanoseconds next.
\<close>

record Time =
  Time_sec :: "64 word"
  Time_nsec :: "32 word"

definition unixToInternal :: "64 word" where
  "unixToInternal = 62135596800"

definition time_Unix :: "64 word \<Rightarrow> 64 word \<Rightarrow> Time" where
  "time_Unix sec0 nsec0 =
     (let (sec1, nsec1) =
        (if nsec0 <s 0 \<or> 1000000000 \<le>s nsec0 then
           (let n = int64_quo nsec0 1000000000;
                sec' = sec0 + n;
                nsec' = nsec0 - n * 1000000000
            in if nsec' <s 0 then (sec' - 1, nsec' + 1000000000) else (sec', nsec'))
         else (sec0, nsec0))
      in \<lparr>Time_sec = sec1 + unixToInternal, Time_nsec = ucast nsec1\<rparr>)"

definition time_UTC :: "Time \<Rightarrow> Time" where
  "time_UTC t = t"

definition time_After :: "Time \<Rightarrow> Time \<Rightarrow> bool" where
  "time_After t u =
     (Time_sec u <s Time_sec t \<or> (Time_sec t = Time_sec u \<and> Time_nsec u <s Time_nsec t))"

definition time_Before :: "Time \<Rightarrow> Time \<Rightarrow> bool" where
  "time_Before t u =
     (Time_sec t <s Time_sec u \<or> (Time_sec t = Time_sec u \<and> Time_nsec t <s Time_nsec u))"

text \<open>
  The instant a time stands for, in nanoseconds since the Unix epoch, as an unbounded
  integer (\<^verbatim>\<open>UnixNano()\<close> without its overflow).
\<close>

definition unix_nanos :: "Time \<Rightarrow> int" where
  "unix_nanos t = (sint (Time_sec t) - sint unixToInternal) * 1000000000 + sint (Time_nsec t)"

subsection \<open>Constants and settings\<close>

definition prometheusSnapshotSuccess :: string where
  "prometheusSnapshotSuccess = ''success''"

definition prometheusSnapshotFolder :: string where
  "prometheusSnapshotFolder = ''snapshots''"

definition temporalSnapshotTarballPath :: string where
  "temporalSnapshotTarballPath = ''/tmp/InstaclustrCollection.tar''"

text \<open>The command templates, each applied to its arguments as \<^verbatim>\<open>fmt.Sprintf\<close> does.\<close>

definition prometheusCreateSnapshotTemplate :: "16 word \<Rightarrow> string" where
  "prometheusCreateSnapshotTemplate port =
     ''curl -s -XPOST http://localhost:'' @ fmt_d (sint port) @ ''/api/v1/admin/tsdb/snapshot''"

definition prometheusRemoveResourceTemplate :: "string \<Rightarrow> string" where
  "prometheusRemoveResourceTemplate path = ''rm -rf '' @ path"

definition createSnapshotTarballTemplate :: "string \<Rightarrow> string \<Rightarrow> string" where
  "createSnapshotTarballTemplate dest src = ''tar -cf '' @ dest @ '' -C '' @ src @ '' .''"

definition getSnapshotBlockListTemplate :: "string \<Rightarrow> string" where
  "getSnapshotBlockListTemplate src = ''ls -d '' @ src @ ''/*/''"

definition getSnapshotBlockMetadataTemplate :: "string \<Rightarrow> string" where
  "getSnapshotBlockMetadataTemplate src = ''cat '' @ src @ ''/meta.json''"

record PrometheusSettings =
  Port :: "16 word"
  DataPath :: string

record MetricsCollectorSettings =
  Prometheus :: PrometheusSettings
  CopyCompressed :: bool

definition MetricsCollectorDefaultSettings :: MetricsCollectorSettings where
  "MetricsCollectorDefaultSettings =
     \<lparr>Prometheus = \<lparr>Port = 9090, DataPath = ''/var/data''\<rparr>, CopyCompressed = True\<rparr>"

text \<open>
  The collector. Its logger is not a field of the model: every call of the logger is
  an event of the run (below).
\<close>

record MetricsCollector =
  Settings :: MetricsCollectorSettings
  Path :: string
  TimestampFrom :: Time
  TimestampTo :: Time

subsection \<open>The remote agent, the JSON decoder and the events of a run\<close>

text \<open>
  The agent is an interface the collector is given. It is a parameter of the model:
  each method takes the state of the remote side (of any type \<open>'s\<close>) and returns
  its results with the new state. \<^verbatim>\<open>ExecuteCommand\<close> returns the standard output,
  the standard error and the transport error; the collector reads the two buffers only
  when the error is \<^verbatim>\<open>nil\<close>, and the agent is taken to return both of them then
  (a \<^verbatim>\<open>nil\<close> buffer would make the collector panic). The third argument of
  \<^verbatim>\<open>ReceiveDir\<close> is always \<^verbatim>\<open>nil\<close> and is left out.
\<close>

record 's SSHCollectingAgent =
  GetHost :: string
  Connect :: "'s \<Rightarrow> error option \<times> 's"
  ExecuteCommand :: "string \<Rightarrow> 's \<Rightarrow> (string \<times> string \<times> error option) \<times> 's"
  ReceiveDir :: "string \<Rightarrow> string \<Rightarrow> 's \<Rightarrow> error option \<times> 's"

text \<open>
  \<^verbatim>\<open>json.Unmarshal\<close> is a parameter as well, one decoder for each of the two types
  the collector decodes into: \<open>Inl e\<close> is the decoder's error.
\<close>

record PrometheusSnapshotResponse_Data =
  Name :: string

record PrometheusSnapshotResponse =
  Status :: string
  Data :: PrometheusSnapshotResponse_Data
  Error :: string

record blockMetadata_Stats =
  NumSamples :: "64 word"
  NumSeries :: "64 word"
  NumChunks :: "64 word"

record blockMetadata =
  Ulid :: string
  Version :: int
  MinTime :: "64 word"
  MaxTime :: "64 word"
  Stats :: blockMetadata_Stats

record encoding_json =
  Unmarshal_PrometheusSnapshotResponse :: "string \<Rightarrow> error + PrometheusSnapshotResponse"
  Unmarshal_blockMetadata :: "string \<Rightarrow> error + blockMetadata"

text \<open>
  What a run does to the outside is the list of its events, in order: the calls of the
  agent (with what was passed) and the calls of the logger (the prefix field of the
  entry when it has one, the level, and the arguments as they were passed).
\<close>

datatype level = InfoLevel | WarnLevel | ErrorLevel

datatype logarg = LStr string | LInt int | LErr error | LTime Time

datatype event =
    CallConnect
  | CallExecuteCommand string
  | CallReceiveDir string string
  | Log "string option" level "logarg list"

definition agent_Connect ::
  "'s SSHCollectingAgent \<Rightarrow> 's \<Rightarrow> error option \<times> 's \<times> event list" where
  "agent_Connect agent s = (let (err, s') = Connect agent s in (err, s', [CallConnect]))"

definition agent_ExecuteCommand ::
  "'s SSHCollectingAgent \<Rightarrow> string \<Rightarrow> 's \<Rightarrow> (string \<times> string \<times> error option) \<times> 's \<times> event list" where
  "agent_ExecuteCommand agent command s =
     (let (res, s') = ExecuteCommand agent command s in (res, s', [CallExecuteCommand command]))"

definition agent_ReceiveDir ::
  "'s SSHCollectingAgent \<Rightarrow> string \<Rightarrow> string \<Rightarrow> 's \<Rightarrow> error option \<times> 's \<times> event list" where
  "agent_ReceiveDir agent src dest s =
     (let (err, s') = ReceiveDir agent src dest s in (err, s', [CallReceiveDir src dest]))"

subsection \<open>The steps of the collector\<close>

definition removeResource ::
  "'s SSHCollectingAgent \<Rightarrow> string \<Rightarrow> 's \<Rightarrow> error option \<times> 's \<times> event list" where
  "removeResource agent path s =
     (let ((sout, serr, err), s', ev) =
            agent_ExecuteCommand agent (prometheusRemoveResourceTemplate path) s
      in case err of
           Some e \<Rightarrow>
             (Some (errors_New (''Failed to remove resource '' @ [CHR 0x27] @ path @ [CHR 0x27]
                                  @ '' ('' @ error_Error e @ '')'')), s', ev)
         | None \<Rightarrow> (None, s', ev))"

definition downloadSnapshot ::
  "'s SSHCollectingAgent \<Rightarrow> string \<Rightarrow> string \<Rightarrow> 's \<Rightarrow> error option \<times> 's \<times> event list" where
  "downloadSnapshot agent src dest s =
     (let (err, s', ev) = agent_ReceiveDir agent src dest s
      in case err of
           Some e \<Rightarrow> (Some (errors_New (''Failed to receive snapshot ('' @ error_Error e @ '')'')), s', ev)
         | None \<Rightarrow> (None, s', ev))"

definition tarballSnapshot ::
  "'s SSHCollectingAgent \<Rightarrow> string \<Rightarrow> string \<Rightarrow> 's \<Rightarrow> error option \<times> 's \<times> event list" where
  "tarballSnapshot agent src dest s =
     (let ((sout, serr, err), s', ev) =
            agent_ExecuteCommand agent (createSnapshotTarballTemplate dest src) s
      in case err of
           Some e \<Rightarrow> (Some e, s', ev)
         | None \<Rightarrow>
             if length serr > 0
             then (Some (errors_New (''Failed to create snapshot tarball: '' @ serr)), s', ev)
             else (None, s', ev))"

definition getBlockList ::
  "'s SSHCollectingAgent \<Rightarrow> string \<Rightarrow> 's \<Rightarrow> (error + string list) \<times> 's \<times> event list" where
  "getBlockList agent src s =
     (let ((sout, serr, err), s', ev) =
            agent_ExecuteCommand agent (getSnapshotBlockListTemplate src) s
      in case err of
           Some e \<Rightarrow> (Inl e, s', ev)
         | None \<Rightarrow>
             if length serr > 0
             then (Inl (errors_New (''Failed to get block list of prometheus snapshot: '' @ serr)), s', ev)
             else (Inr (strings_Fields sout), s', ev))"

definition getBlockMetadata ::
  "encoding_json \<Rightarrow> 's SSHCollectingAgent \<Rightarrow> string \<Rightarrow> 's
     \<Rightarrow> (error + blockMetadata) \<times> 's \<times> event list" where
  "getBlockMetadata json agent src s =
     (let ((sout, serr, err), s', ev) =
            agent_ExecuteCommand agent (getSnapshotBlockMetadataTemplate src) s
      in case err of
           Some e \<Rightarrow> (Inl e, s', ev)
         | None \<Rightarrow>
             if length serr > 0
             then (Inl (errors_New (''Failed to get block metadata: '' @ serr)), s', ev)
             else
               (case Unmarshal_blockMetadata json sout of
                  Inl e \<Rightarrow>
                    (Inl (errors_New (''Failed to unmarshal block metadata ('' @ error_Error e @ '')'')),
                     s', ev)
                | Inr metadata \<Rightarrow> (Inr metadata, s', ev)))"

definition createSnapshot ::
  "MetricsCollector \<Rightarrow> encoding_json \<Rightarrow> 's SSHCollectingAgent \<Rightarrow> 's
     \<Rightarrow> (error + string) \<times> 's \<times> event list" where
  "createSnapshot collector json agent s =
     (let createSnapshotCommand =
            prometheusCreateSnapshotTemplate (Port (Prometheus (Settings collector)));
          ((sout, serr, err), s', ev) = agent_ExecuteCommand agent createSnapshotCommand s
      in case err of
           Some e \<Rightarrow> (Inl e, s', ev)
         | None \<Rightarrow>
             if length serr > 0
             then (Inl (errors_New (''Failed to create prometheus snapshot: '' @ serr)), s', ev)
             else
               (case Unmarshal_PrometheusSnapshotResponse json sout of
                  Inl e \<Rightarrow>
                    (Inl (errors_New (''Failed to unmarshal snapshot command output (''
                                        @ error_Error e @ '')'')), s', ev)
                | Inr response \<Rightarrow>
                    if Status response \<noteq> prometheusSnapshotSuccess
                    then (Inl (errors_New (''Failed to create prometheus snapshot (status: ''
                                 @ Status response @ '' '' @ [CHR 0x27] @ Error response
                                 @ [CHR 0x27] @ '')'')), s', ev)
                    else (Inr (Name (Data response)), s', ev)))"

text \<open>
  The time-window filter. \<open>blockTimestamp\<close> is the conversion of lines 189 and 190,
  \<open>fallsIntoTheSelectedTimeRange\<close> the test of lines 195 and 196, \<open>lightenBlock\<close>
  the body of the loop for the block at \<open>index\<close> of \<open>nblocks\<close>, and \<open>lightenBlocks\<close>
  the loop over the blocks that are left.
\<close>

definition blockTimestamp :: "64 word \<Rightarrow> Time" where
  "blockTimestamp ms =
     time_UTC (time_Unix (int64_quo ms 1000) (int64_rem ms 1000 * 1000000))"

definition fallsIntoTheSelectedTimeRange :: "MetricsCollector \<Rightarrow> blockMetadata \<Rightarrow> bool" where
  "fallsIntoTheSelectedTimeRange collector metadata =
     (let blockMinTimestamp = blockTimestamp (MinTime metadata);
          blockMaxTimestamp = blockTimestamp (MaxTime metadata)
      in (time_After blockMinTimestamp (TimestampFrom collector)
            \<or> time_After blockMaxTimestamp (TimestampFrom collector))
         \<and> (time_Before blockMinTimestamp (TimestampTo collector)
            \<or> time_Before blockMaxTimestamp (TimestampTo collector)))"

definition lightenBlock ::
  "MetricsCollector \<Rightarrow> encoding_json \<Rightarrow> 's SSHCollectingAgent \<Rightarrow> nat \<Rightarrow> nat \<Rightarrow> string \<Rightarrow> 's
     \<Rightarrow> 's \<times> event list" where
  "lightenBlock collector json agent index nblocks block s =
     (let (res, s1, ev1) = getBlockMetadata json agent block s
      in case res of
           Inl e \<Rightarrow>
             (s1, ev1 @ [Log None WarnLevel
                           [LStr (''Ignoring block ('' @ block @ ''): '' @ error_Error e)]])
         | Inr metadata \<Rightarrow>
             if Version metadata \<noteq> 1
             then (s1, ev1 @ [Log None WarnLevel
                                [LStr ''Ignoring block ('', LStr block, LStr ''): version #'',
                                 LInt (Version metadata), LStr '' unsupported'']])
             else
               (let blockMinTimestamp = blockTimestamp (MinTime metadata);
                    blockMaxTimestamp = blockTimestamp (MaxTime metadata);
                    falls = fallsIntoTheSelectedTimeRange collector metadata;
                    logMessage = (if falls then ''falls into the time span'' else ''will be skipped'');
                    ev2 = ev1 @ [Log None InfoLevel
                                   [LStr ''Block '', LInt (int index + 1), LStr ''/'',
                                    LInt (int nblocks), LStr '' '', LStr (Ulid metadata), LStr ''  '',
                                    LTime blockMinTimestamp, LStr '' .. '', LTime blockMaxTimestamp,
                                    LStr '': '', LStr logMessage]]
                in if \<not> falls
                   then
                     (let (err, s2, ev3) = removeResource agent block s1
                      in case err of
                           Some e \<Rightarrow>
                             (s2, ev2 @ ev3 @ [Log None WarnLevel
                                [LStr (''Failed to drop snapshot block: '' @ error_Error e)]])
                         | None \<Rightarrow> (s2, ev2 @ ev3))
                   else (s1, ev2)))"

fun lightenBlocks ::
  "MetricsCollector \<Rightarrow> encoding_json \<Rightarrow> 's SSHCollectingAgent \<Rightarrow> nat \<Rightarrow> nat \<Rightarrow> string list \<Rightarrow> 's
     \<Rightarrow> 's \<times> event list" where
  "lightenBlocks collector json agent index nblocks [] s = (s, [])"
| "lightenBlocks collector json agent index nblocks (block # rest) s =
     (let (s1, ev1) = lightenBlock collector json agent index nblocks block s;
          (s2, ev2) = lightenBlocks collector json agent (index + 1) nblocks rest s1
      in (s2, ev1 @ ev2))"

definition lightenSnapshot ::
  "MetricsCollector \<Rightarrow> encoding_json \<Rightarrow> 's SSHCollectingAgent \<Rightarrow> string \<Rightarrow> 's
     \<Rightarrow> error option \<times> 's \<times> event list" where
  "lightenSnapshot collector json agent src s =
     (let (res, s1, ev1) = getBlockList agent src s
      in case res of
           Inl e \<Rightarrow> (Some e, s1, ev1)
         | Inr blocks \<Rightarrow>
             (let (s2, ev2) = lightenBlocks collector json agent 0 (length blocks) blocks s1
              in (None, s2, ev1 @ ev2)))"

text \<open>
  \<open>Collect\<close>, the whole run. The entries of its own logger carry the prefix
  \<^verbatim>\<open>"MC " + agent.GetHost()\<close>. The tuple \<open>(early, src', resourceName, s5, ev5)\<close> is
  the state after the block of lines 93 to 116: \<open>early\<close> is the error line 111 returns.
\<close>

definition Collect ::
  "MetricsCollector \<Rightarrow> encoding_json \<Rightarrow> 's SSHCollectingAgent \<Rightarrow> 's
     \<Rightarrow> error option \<times> 's \<times> event list" where
  "Collect collector json agent s0 =
     (let log = Log (Some (''MC '' @ GetHost agent));
          ev0 = [log InfoLevel [LStr ''Metrics collecting started'']];
          (err, s1, evc) = agent_Connect agent s0;
          ev1 = ev0 @ evc
      in case err of
           Some e \<Rightarrow> (Some e, s1, ev1 @ [log ErrorLevel [LErr e]])
         | None \<Rightarrow>
     (let (res, s2, evs) = createSnapshot collector json agent s1;
          ev2 = ev1 @ [log InfoLevel [LStr ''Creating snapshot...'']] @ evs
      in case res of
           Inl e \<Rightarrow> (Some e, s2, ev2 @ [log ErrorLevel [LErr e]])
         | Inr snapshot \<Rightarrow>
     (let ev2' = ev2 @ [log InfoLevel [LStr ''Creating snapshot  OK''],
                        log InfoLevel [LStr ''Snapshot name: '', LStr snapshot]];
          src = filepath_Join [DataPath (Prometheus (Settings collector)),
                               prometheusSnapshotFolder, snapshot];
          (lerr, s3, evl) = lightenSnapshot collector json agent src s2;
          ev3 = ev2' @ [log InfoLevel [LStr ''Lightening snapshot...'']] @ evl
                @ (case lerr of
                     Some e \<Rightarrow> [log WarnLevel [LStr (''Failed to lighten snapshot: '' @ error_Error e)]]
                   | None \<Rightarrow> [])
                @ [log InfoLevel [LStr ''Lightening snapshot  OK'']];
          (early, src', resourceName, s5, ev5) =
            (if CopyCompressed (Settings collector) then
               (let (tarballErr, s4, evt) =
                      tarballSnapshot agent src temporalSnapshotTarballPath s3;
                    ev4 = ev3 @ [log InfoLevel [LStr ''Creating snapshot tarball...'']] @ evt
                          @ (case tarballErr of
                               Some e \<Rightarrow> [log ErrorLevel [LErr e]]
                             | None \<Rightarrow> [log InfoLevel [LStr ''Creating snapshot tarball  OK'']]);
                    (rerr, s5, evr) = removeResource agent src s4;
                    ev5 = ev4 @ [log InfoLevel [LStr ''Cleanup snapshot...'']] @ evr
                          @ (case rerr of
                               Some e \<Rightarrow> [log ErrorLevel [LErr e]]
                             | None \<Rightarrow> [log InfoLevel [LStr ''Cleanup snapshot  OK'']])
                in case tarballErr of
                     Some e \<Rightarrow> (Some e, src, ''snapshot'', s5, ev5)
                   | None \<Rightarrow> (None, temporalSnapshotTarballPath, ''snapshot tarball'', s5, ev5))
             else (None, src, ''snapshot'', s3, ev3))
      in case early of
           Some e \<Rightarrow> (Some e, s5, ev5)
         | None \<Rightarrow>
     (let dest = filepath_Join [Path collector, ''snapshot''];
          (derr, s6, evd) = downloadSnapshot agent src' dest s5;
          ev6 = ev5 @ [log InfoLevel [LStr ''Downloading snapshot...'']] @ evd
                @ (case derr of
                     Some e \<Rightarrow> [log ErrorLevel [LErr e]]
                   | None \<Rightarrow> [log InfoLevel [LStr ''Downloading snapshot  OK'']]);
          (cerr, s7, evf) = removeResource agent src' s6;
          ev7 = ev6 @ [log InfoLevel [LStr (''Cleanup '' @ resourceName @ ''...'')]] @ evf
      in case cerr of
           Some e \<Rightarrow> (Some e, s7, ev7 @ [log ErrorLevel [LErr e]])
         | None \<Rightarrow>
             (None, s7, ev7 @ [log InfoLevel [LStr (''Cleanup '' @ resourceName @ ''  OK'')],
                               log InfoLevel [LStr ''Metrics collecting completed'']])))))"

subsection \<open>What a run did: the commands executed and the transfers made\<close>

definition executed :: "event list \<Rightarrow> string list" where
  "executed evs = concat (map (\<lambda>e. case e of CallExecuteCommand c \<Rightarrow> [c] | _ \<Rightarrow> []) evs)"

definition received :: "event list \<Rightarrow> (string \<times> string) list" where
  "received evs = concat (map (\<lambda>e. case e of CallReceiveDir r d \<Rightarrow> [(r, d)] | _ \<Rightarrow> []) evs)"

subsection \<open>Concrete hosts and decoders\<close>

text \<open>
  An agent that answers from a table of replies, one per command (a command that is
  not in the table succeeds silently), and counts the calls made to it; and decoders
  that know a table of documents and reject every other text.
\<close>

definition table_agent ::
  "(string \<times> string \<times> string \<times> error option) list \<Rightarrow> error option \<Rightarrow> nat SSHCollectingAgent" where
  "table_agent replies recv =
     \<lparr>GetHost = ''node1'',
      Connect = (\<lambda>s. (None, Suc s)),
      ExecuteCommand = (\<lambda>command s.
        (case map_of replies command of Some r \<Rightarrow> r | None \<Rightarrow> ([], [], None), Suc s)),
      ReceiveDir = (\<lambda>src dest s. (recv, Suc s))\<rparr>"

definition table_json ::
  "(string \<times> PrometheusSnapshotResponse) list \<Rightarrow> (string \<times> blockMetadata) list
     \<Rightarrow> encoding_json" where
  "table_json responses metas =
     \<lparr>Unmarshal_PrometheusSnapshotResponse = (\<lambda>data.
        case map_of responses data of
          Some r \<Rightarrow> Inr r
        | None \<Rightarrow> Inl (errors_New ''unexpected end of JSON input'')),
      Unmarshal_blockMetadata = (\<lambda>data.
        case map_of metas data of
          Some m \<Rightarrow> Inr m
        | None \<Rightarrow> Inl (errors_New ''unexpected end of JSON input''))\<rparr>"

definition denied_agent :: "nat SSHCollectingAgent" where
  "denied_agent =
     table_agent [(''rm -rf /var/data/snapshots/abc'',
                   ([], ''rm: cannot remove /var/data/snapshots/abc: Permission denied'', None))] None"

text \<open>
  The documented scenario: the snapshot \<^verbatim>\<open>20210101T000000Z-abc\<close> with block A
  (version 1, 0 to 500 ms) and block B (version 1, 10000 to 20000 ms), and the window
  from 1000 ms to 15000 ms. Two more block directories can be asked for: C, of version
  2, and D, whose metadata is cut short.
\<close>

definition scenario_name :: string where
  "scenario_name = ''20210101T000000Z-abc''"

definition scenario_src :: string where
  "scenario_src = ''/var/data/snapshots/20210101T000000Z-abc''"

definition blockA :: string where
  "blockA = ''/var/data/snapshots/20210101T000000Z-abc/01A/''"

definition blockB :: string where
  "blockB = ''/var/data/snapshots/20210101T000000Z-abc/01B/''"

definition blockC :: string where
  "blockC = ''/var/data/snapshots/20210101T000000Z-abc/01C/''"

definition blockD :: string where
  "blockD = ''/var/data/snapshots/20210101T000000Z-abc/01D/''"

definition scenario_listing :: string where
  "scenario_listing = blockA @ [CHR 0x0A] @ blockB @ [CHR 0x0A]"

definition response_ok :: string where
  \<open>response_ok = ''{"status":"success","data":{"name":"20210101T000000Z-abc"}}''\<close>

definition response_error :: string where
  \<open>response_error = ''{"status":"error","error":"out of space"}''\<close>

definition response_noname :: string where
  \<open>response_noname = ''{"status":"success","data":{}}''\<close>

definition metaA_json :: string where
  \<open>metaA_json = ''{"ulid":"01A","version":1,"minTime":0,"maxTime":500}''\<close>

definition metaB_json :: string where
  \<open>metaB_json = ''{"ulid":"01B","version":1,"minTime":10000,"maxTime":20000}''\<close>

definition metaC_json :: string where
  \<open>metaC_json = ''{"ulid":"01C","version":2,"minTime":0,"maxTime":500}''\<close>

definition no_stats :: blockMetadata_Stats where
  "no_stats = \<lparr>NumSamples = 0, NumSeries = 0, NumChunks = 0\<rparr>"

definition metaA :: blockMetadata where
  "metaA = \<lparr>Ulid = ''01A'', Version = 1, MinTime = 0, MaxTime = 500, Stats = no_stats\<rparr>"

definition metaB :: blockMetadata where
  "metaB = \<lparr>Ulid = ''01B'', Version = 1, MinTime = 10000, MaxTime = 20000, Stats = no_stats\<rparr>"

definition metaC :: blockMetadata where
  "metaC = \<lparr>Ulid = ''01C'', Version = 2, MinTime = 0, MaxTime = 500, Stats = no_stats\<rparr>"

definition scenario_json :: encoding_json where
  "scenario_json =
     table_json
       [(response_ok, \<lparr>Status = ''success'', Data = \<lparr>Name = scenario_name\<rparr>, Error = []\<rparr>),
        (response_error, \<lparr>Status = ''error'', Data = \<lparr>Name = []\<rparr>, Error = ''out of space''\<rparr>),
        (response_noname, \<lparr>Status = ''success'', Data = \<lparr>Name = []\<rparr>, Error = []\<rparr>)]
       [(metaA_json, metaA), (metaB_json, metaB), (metaC_json, metaC)]"

definition scenario_collector :: "bool \<Rightarrow> MetricsCollector" where
  "scenario_collector compressed =
     \<lparr>Settings = MetricsCollectorDefaultSettings\<lparr>CopyCompressed := compressed\<rparr>,
      Path = ''/tmp/collection/node1'',
      TimestampFrom = time_Unix 1 0,
      TimestampTo = time_Unix 15 0\<rparr>"

definition scenario_create :: string where
  "scenario_create = ''curl -s -XPOST http://localhost:9090/api/v1/admin/tsdb/snapshot''"

text \<open>
  The host of the scenario. \<open>extra\<close> overrides the replies of the scenario, \<open>recv\<close> is
  what every download returns.
\<close>

definition scenario_replies :: "(string \<times> string \<times> string \<times> error option) list" where
  "scenario_replies =
     [(scenario_create, (response_ok, [], None)),
      (''ls -d '' @ scenario_src @ ''/*/'', (scenario_listing, [], None)),
      (''cat '' @ blockA @ ''/meta.json'', (metaA_json, [], None)),
      (''cat '' @ blockB @ ''/meta.json'', (metaB_json, [], None)),
      (''cat '' @ blockC @ ''/meta.json'', (metaC_json, [], None)),
      (''cat '' @ blockD @ ''/meta.json'', (''{'', [], None))]"

definition scenario_agent ::
  "(string \<times> string \<times> string \<times> error option) list \<Rightarrow> error option \<Rightarrow> nat SSHCollectingAgent" where
  "scenario_agent extra recv = table_agent (extra @ scenario_replies) recv"

text \<open>What lightening the snapshot of the scenario does, as events.\<close>

definition scenario_lightening :: "event list" where
  "scenario_lightening =
     [CallExecuteCommand (''ls -d '' @ scenario_src @ ''/*/''),
      CallExecuteCommand (''cat '' @ blockA @ ''/meta.json''),
      Log None InfoLevel
        [LStr ''Block '', LInt 1, LStr ''/'', LInt 2, LStr '' '', LStr ''01A'', LStr ''  '',
         LTime (blockTimestamp 0), LStr '' .. '', LTime (blockTimestamp 500), LStr '': '',
         LStr ''will be skipped''],
      CallExecuteCommand (''rm -rf '' @ blockA),
      CallExecuteCommand (''cat '' @ blockB @ ''/meta.json''),
      Log None InfoLevel
        [LStr ''Block '', LInt 2, LStr ''/'', LInt 2, LStr '' '', LStr ''01B'', LStr ''  '',
         LTime (blockTimestamp 10000), LStr '' .. '', LTime (blockTimestamp 20000), LStr '': '',
         LStr ''falls into the time span'']]"

text \<open>
  Hosts on which one step of the scenario fails: the tarball cannot be written and
  the connection is lost on the remove that follows; and the connection is lost on the
  remove of the tarball.
\<close>

definition scenario_tarball :: string where
  "scenario_tarball =
     ''tar -cf /tmp/InstaclustrCollection.tar -C /var/data/snapshots/20210101T000000Z-abc .''"

definition tarball_failure_agent :: "nat SSHCollectingAgent" where
  "tarball_failure_agent =
     scenario_agent
       [(scenario_tarball, ([], ''tar: write error'', None)),
        (''rm -rf '' @ scenario_src, ([], [], Some (errors_New ''connection lost'')))]
       None"

definition cleanup_failure_agent :: "error option \<Rightarrow> nat SSHCollectingAgent" where
  "cleanup_failure_agent recv =
     scenario_agent
       [(''rm -rf /tmp/InstaclustrCollection.tar'', ([], [], Some (errors_New ''connection lost'')))]
       recv"

definition noname_agent :: "nat SSHCollectingAgent" where
  "noname_agent = scenario_agent [(scenario_create, (response_noname, [], None))] None"

text \<open>
  A host whose listing of the scenario's snapshot has the block D, whose metadata is
  cut short, between the blocks A and B.
\<close>

definition failing_block_listing :: string where
  "failing_block_listing = blockA @ [CHR 0x0A] @ blockD @ [CHR 0x0A] @ blockB @ [CHR 0x0A]"

definition failing_block_agent :: "nat SSHCollectingAgent" where
  "failing_block_agent =
     scenario_agent
       [(''ls -d '' @ scenario_src @ ''/*/'', (failing_block_listing, [], None))] None"

section \<open>Properties\<close>

subsection \<open>Events of the single steps\<close>

lemma executed_simps [simp]:
  "executed [] = []"
  "executed (evs @ evs') = executed evs @ executed evs'"
  "executed (CallExecuteCommand c # evs) = c # executed evs"
  "executed (CallConnect # evs) = executed evs"
  "executed (CallReceiveDir r d # evs) = executed evs"
  "executed (Log p l a # evs) = executed evs"
  by (simp_all add: executed_def)

lemma received_simps [simp]:
  "received [] = []"
  "received (evs @ evs') = received evs @ received evs'"
  "received (CallExecuteCommand c # evs) = received evs"
  "received (CallConnect # evs) = received evs"
  "received (CallReceiveDir r d # evs) = (r, d) # received evs"
  "received (Log p l a # evs) = received evs"
  by (simp_all add: received_def)

lemma removeResource_run:
  assumes "ExecuteCommand agent (''rm -rf '' @ path) s = ((sout, serr, err), s')"
  shows "removeResource agent path s =
           (case err of
              Some e \<Rightarrow> Some (errors_New (''Failed to remove resource '' @ [CHR 0x27] @ path
                                  @ [CHR 0x27] @ '' ('' @ error_Error e @ '')''))
            | None \<Rightarrow> None,
            s', [CallExecuteCommand (''rm -rf '' @ path)])"
  using assms
  by (simp add: removeResource_def agent_ExecuteCommand_def prometheusRemoveResourceTemplate_def
      split: option.splits)

lemma removeResource_events:
  "snd (snd (removeResource agent path s)) = [CallExecuteCommand (''rm -rf '' @ path)]"
  by (simp add: removeResource_def agent_ExecuteCommand_def prometheusRemoveResourceTemplate_def
      split: option.splits prod.splits)

lemma tarballSnapshot_events:
  "snd (snd (tarballSnapshot agent src dest s)) =
     [CallExecuteCommand (''tar -cf '' @ dest @ '' -C '' @ src @ '' .'')]"
  by (simp add: tarballSnapshot_def agent_ExecuteCommand_def createSnapshotTarballTemplate_def
      split: option.splits prod.splits)

lemma downloadSnapshot_events:
  "snd (snd (downloadSnapshot agent src dest s)) = [CallReceiveDir src dest]"
  by (simp add: downloadSnapshot_def agent_ReceiveDir_def split: option.splits prod.splits)

lemma createSnapshot_events:
  "snd (snd (createSnapshot collector json agent s)) =
     [CallExecuteCommand (prometheusCreateSnapshotTemplate (Port (Prometheus (Settings collector))))]"
  by (simp add: createSnapshot_def agent_ExecuteCommand_def Let_def
      split: option.splits prod.splits sum.splits)

lemma getBlockList_events:
  "snd (snd (getBlockList agent src s)) = [CallExecuteCommand (''ls -d '' @ src @ ''/*/'')]"
  by (simp add: getBlockList_def agent_ExecuteCommand_def getSnapshotBlockListTemplate_def
      split: option.splits prod.splits)

lemma getBlockMetadata_events:
  "snd (snd (getBlockMetadata json agent src s)) =
     [CallExecuteCommand (''cat '' @ src @ ''/meta.json'')]"
  by (simp add: getBlockMetadata_def agent_ExecuteCommand_def getSnapshotBlockMetadataTemplate_def
      split: option.splits prod.splits sum.splits)

lemma lightenBlock_received:
  "received (snd (lightenBlock collector json agent index nblocks block s)) = []"
proof -
  obtain res s1 ev1 where m: "getBlockMetadata json agent block s = (res, s1, ev1)"
    by (cases "getBlockMetadata json agent block s") auto
  have ev1: "received ev1 = []"
    using getBlockMetadata_events [of json agent block s] m by simp
  obtain err s2 ev3 where r: "removeResource agent block s1 = (err, s2, ev3)"
    by (cases "removeResource agent block s1") auto
  have ev3: "received ev3 = []"
    using removeResource_events [of agent block s1] r by simp
  show ?thesis
    by (simp add: lightenBlock_def m r ev1 ev3 Let_def split: sum.splits option.splits)
qed

lemma lightenBlocks_received:
  "received (snd (lightenBlocks collector json agent index nblocks blocks s)) = []"
proof (induction blocks arbitrary: index s)
  case Nil
  then show ?case by simp
next
  case (Cons block rest)
  then show ?case
    using lightenBlock_received [of collector json agent index nblocks block s]
    by (simp add: split_beta Let_def)
qed

lemma lightenSnapshot_received:
  "received (snd (snd (lightenSnapshot collector json agent src s))) = []"
proof -
  obtain res s1 ev1 where l: "getBlockList agent src s = (res, s1, ev1)"
    by (cases "getBlockList agent src s") auto
  have "received ev1 = []"
    using getBlockList_events [of agent src s] l by simp
  then show ?thesis
    using lightenBlocks_received [of collector json agent 0]
    by (simp add: lightenSnapshot_def l split_beta Let_def split: sum.splits)
qed

lemma lightenSnapshot_executed:
  "\<exists>rest. executed (snd (snd (lightenSnapshot collector json agent src s)))
            = (''ls -d '' @ src @ ''/*/'') # rest"
proof -
  obtain res s1 ev1 where l: "getBlockList agent src s = (res, s1, ev1)"
    by (cases "getBlockList agent src s") auto
  have "ev1 = [CallExecuteCommand (''ls -d '' @ src @ ''/*/'')]"
    using getBlockList_events [of agent src s] l by simp
  then show ?thesis
    by (simp add: lightenSnapshot_def l split_beta Let_def split: sum.splits)
qed

subsection \<open>The scenario, step by step\<close>

lemmas scenario_texts =
  scenario_src_def scenario_create_def scenario_name_def blockA_def blockB_def blockC_def
  blockD_def response_ok_def response_error_def response_noname_def metaA_json_def
  metaB_json_def metaC_json_def

lemma fmt_d_9090: "fmt_d 9090 = ''9090''"
  by (simp add: fmt_d_def nat_digits.simps digit_char_def)

lemma scenario_create_command:
  "prometheusCreateSnapshotTemplate (Port (Prometheus (Settings (scenario_collector compressed))))
     = scenario_create"
  by (simp add: prometheusCreateSnapshotTemplate_def scenario_collector_def
      MetricsCollectorDefaultSettings_def fmt_d_9090 scenario_create_def)

lemma scenario_src_eq:
  "filepath_Join [DataPath (Prometheus (Settings (scenario_collector compressed))),
                  prometheusSnapshotFolder, scenario_name] = scenario_src"
  by (simp add: filepath_Join_def filepath_Clean_def scenario_collector_def
      MetricsCollectorDefaultSettings_def prometheusSnapshotFolder_def scenario_name_def
      scenario_src_def)

lemma scenario_dest_eq:
  "filepath_Join [Path (scenario_collector compressed), ''snapshot'']
     = ''/tmp/collection/node1/snapshot''"
  by (simp add: filepath_Join_def filepath_Clean_def scenario_collector_def)

lemma scenario_fields: "strings_Fields scenario_listing = [blockA, blockB]"
  by (simp add: strings_Fields_def space_width_def scenario_listing_def blockA_def blockB_def)

lemma scenario_execute:
  "ExecuteCommand (scenario_agent extra recv) command s =
     (case map_of extra command of
        Some r \<Rightarrow> r
      | None \<Rightarrow> (case map_of scenario_replies command of Some r \<Rightarrow> r | None \<Rightarrow> ([], [], None)),
      Suc s)"
  by (simp add: scenario_agent_def table_agent_def map_add_def split: option.splits)

lemma no_extra: "map_of [] command = None"
  by simp

lemma scenario_agent_calls:
  "GetHost (scenario_agent extra recv) = ''node1''"
  "Connect (scenario_agent extra recv) s = (None, Suc s)"
  "ReceiveDir (scenario_agent extra recv) src dest s = (recv, Suc s)"
  by (simp_all add: scenario_agent_def table_agent_def)

lemma scenario_list:
  assumes "map_of extra (''ls -d '' @ scenario_src @ ''/*/'') = None"
  shows "getBlockList (scenario_agent extra recv) scenario_src s =
     (Inr [blockA, blockB], Suc s, [CallExecuteCommand (''ls -d '' @ scenario_src @ ''/*/'')])"
  using assms
  by (simp add: getBlockList_def agent_ExecuteCommand_def getSnapshotBlockListTemplate_def
      scenario_execute scenario_replies_def scenario_fields scenario_texts)

lemma scenario_metaA:
  assumes "map_of extra (''cat '' @ blockA @ ''/meta.json'') = None"
  shows "getBlockMetadata scenario_json (scenario_agent extra recv) blockA s =
     (Inr metaA, Suc s, [CallExecuteCommand (''cat '' @ blockA @ ''/meta.json'')])"
  using assms
  by (simp add: getBlockMetadata_def agent_ExecuteCommand_def getSnapshotBlockMetadataTemplate_def
      scenario_execute scenario_replies_def scenario_json_def table_json_def scenario_texts)

lemma scenario_metaB:
  assumes "map_of extra (''cat '' @ blockB @ ''/meta.json'') = None"
  shows "getBlockMetadata scenario_json (scenario_agent extra recv) blockB s =
     (Inr metaB, Suc s, [CallExecuteCommand (''cat '' @ blockB @ ''/meta.json'')])"
  using assms
  by (simp add: getBlockMetadata_def agent_ExecuteCommand_def getSnapshotBlockMetadataTemplate_def
      scenario_execute scenario_replies_def scenario_json_def table_json_def scenario_texts)

lemma scenario_metaC:
  assumes "map_of extra (''cat '' @ blockC @ ''/meta.json'') = None"
  shows "getBlockMetadata scenario_json (scenario_agent extra recv) blockC s =
     (Inr metaC, Suc s, [CallExecuteCommand (''cat '' @ blockC @ ''/meta.json'')])"
  using assms
  by (simp add: getBlockMetadata_def agent_ExecuteCommand_def getSnapshotBlockMetadataTemplate_def
      scenario_execute scenario_replies_def scenario_json_def table_json_def scenario_texts)

lemma scenario_metaD:
  assumes "map_of extra (''cat '' @ blockD @ ''/meta.json'') = None"
  shows "getBlockMetadata scenario_json (scenario_agent extra recv) blockD s =
     (Inl (errors_New ''Failed to unmarshal block metadata (unexpected end of JSON input)''),
      Suc s, [CallExecuteCommand (''cat '' @ blockD @ ''/meta.json'')])"
  using assms
  by (simp add: getBlockMetadata_def agent_ExecuteCommand_def getSnapshotBlockMetadataTemplate_def
      scenario_execute scenario_replies_def scenario_json_def table_json_def scenario_texts)

lemma scenario_remove:
  assumes "map_of extra (''rm -rf '' @ path) = None"
  shows "removeResource (scenario_agent extra recv) path s =
     (None, Suc s, [CallExecuteCommand (''rm -rf '' @ path)])"
  using assms
  by (simp add: removeResource_def agent_ExecuteCommand_def prometheusRemoveResourceTemplate_def
      scenario_execute scenario_replies_def scenario_texts)

lemma scenario_window:
  "\<not> fallsIntoTheSelectedTimeRange (scenario_collector compressed) metaA"
  "fallsIntoTheSelectedTimeRange (scenario_collector compressed) metaB"
  by (simp_all add: fallsIntoTheSelectedTimeRange_def scenario_collector_def metaA_def metaB_def
      blockTimestamp_def time_UTC_def time_Unix_def int64_quo_def int64_rem_def
      signed_divide_int_def signed_modulo_int_def word_sless_alt word_sle_eq unixToInternal_def
      time_After_def time_Before_def)

lemma scenario_lighten:
  assumes "map_of extra (''ls -d '' @ scenario_src @ ''/*/'') = None"
      and "map_of extra (''cat '' @ blockA @ ''/meta.json'') = None"
      and "map_of extra (''rm -rf '' @ blockA) = None"
      and "map_of extra (''cat '' @ blockB @ ''/meta.json'') = None"
  shows "lightenSnapshot (scenario_collector compressed) scenario_json (scenario_agent extra recv)
     scenario_src s
   = (None, Suc (Suc (Suc (Suc s))),
      scenario_lightening)"
  by (simp add: lightenSnapshot_def scenario_list [OF assms(1)] lightenBlock_def
      scenario_metaA [OF assms(2)] scenario_metaB [OF assms(4)] scenario_window
      scenario_remove [OF assms(3)] Let_def scenario_lightening_def)
     (simp add: metaA_def metaB_def)

subsection \<open>The library functions on known inputs\<close>

text \<open>
  The models of the library functions, run on inputs whose results Go documents: the
  cleaning of paths (rows of the table the Go path tests use), the joining of paths,
  the splitting into fields, the decimal format and \<^verbatim>\<open>time.Unix\<close> on milliseconds
  before and after the epoch.
\<close>

lemma filepath_Clean_examples:
  "filepath_Clean ''abc/def/'' = ''abc/def''"
  "filepath_Clean ''//abc'' = ''/abc''"
  "filepath_Clean ''abc/./../def'' = ''def''"
  "filepath_Clean ''abc/def/../../..'' = ''..''"
  "filepath_Clean ''/abc/def/../../../ghi/jkl/../../../mno'' = ''/mno''"
  "filepath_Clean ''../../abc'' = ''../../abc''"
  "filepath_Clean ''/..'' = ''/''"
  "filepath_Clean '''' = ''.''"
  by (simp_all add: filepath_Clean_def)

lemma filepath_Join_examples:
  "filepath_Join [''a'', ''b'', ''c''] = ''a/b/c''"
  "filepath_Join [''a'', ''''] = ''a''"
  "filepath_Join ['''', ''b''] = ''b''"
  "filepath_Join [''/'', ''a''] = ''/a''"
  "filepath_Join ['''', ''''] = ''''"
  "filepath_Join [''a/'', ''b''] = ''a/b''"
  by (simp_all add: filepath_Join_def filepath_Clean_def)

lemma strings_Fields_examples:
  "strings_Fields [CHR ''a'', CHR '' '', CHR 0x09, CHR ''b'', CHR ''c'', CHR 0x0A] = [''a'', ''bc'']"
  "strings_Fields ''   '' = []"
  "strings_Fields [CHR ''a'', CHR 0xC2, CHR 0xA0, CHR ''b''] = [''a'', ''b'']"
  "strings_Fields [CHR ''a'', CHR 0xE2, CHR 0x80, CHR 0x83, CHR ''b''] = [''a'', ''b'']"
  "strings_Fields [CHR ''a'', CHR 0xE2, CHR 0x80, CHR 0x8B, CHR ''b'']
     = [[CHR ''a'', CHR 0xE2, CHR 0x80, CHR 0x8B, CHR ''b'']]"
  by (simp_all add: strings_Fields_def space_width_def eval_nat_numeral)

lemma fmt_d_examples:
  "fmt_d 0 = ''0''"
  "fmt_d (- 1) = ''-1''"
  "fmt_d (sint (- 32768 :: 16 word)) = ''-32768''"
  by (simp_all add: fmt_d_def nat_digits.simps digit_char_def)

lemma blockTimestamp_examples:
  "blockTimestamp 1500 = \<lparr>Time_sec = 62135596801, Time_nsec = 500000000\<rparr>"
  "blockTimestamp (- 1) = \<lparr>Time_sec = 62135596799, Time_nsec = 999000000\<rparr>"
  "blockTimestamp (- 1500) = \<lparr>Time_sec = 62135596798, Time_nsec = 500000000\<rparr>"
  by (simp_all add: blockTimestamp_def time_UTC_def time_Unix_def int64_quo_def int64_rem_def
      signed_divide_int_def signed_modulo_int_def word_sless_alt word_sle_eq unixToInternal_def)

subsection \<open>Signed arithmetic of the timestamp conversion\<close>

lemma sint64_of_int:
  "- (2 ^ 63) \<le> k \<Longrightarrow> k < 2 ^ 63 \<Longrightarrow> sint (word_of_int k :: 64 word) = k"
  by (simp add: sint_sbintrunc' signed_take_bit_int_eq_self)

lemma sint32_of_int:
  "- (2 ^ 31) \<le> k \<Longrightarrow> k < 2 ^ 31 \<Longrightarrow> sint (word_of_int k :: 32 word) = k"
  by (simp add: sint_sbintrunc' signed_take_bit_int_eq_self)

lemma sint32_ucast:
  assumes "0 \<le> sint (w :: 64 word)" "sint w < 2 ^ 31"
  shows "sint (ucast w :: 32 word) = sint w"
proof -
  have "sint w < 2 ^ 64" using assms(2) by simp
  then have u: "uint w = sint w"
    using assms(1) by (simp add: uint_sint take_bit_int_eq_self)
  have r: "sint (word_of_int (sint w) :: 32 word) = sint w"
    using assms by (intro sint32_of_int) simp_all
  have "(ucast w :: 32 word) = word_of_int (uint w)"
    by simp
  also have "\<dots> = word_of_int (sint w)"
    by (simp only: u)
  finally have "sint (ucast w :: 32 word) = sint (word_of_int (sint w) :: 32 word)"
    by (rule arg_cong)
  with r show ?thesis by (simp only:)
qed

lemma sdiv_1000:
  fixes k :: int
  shows "k sdiv 1000 = (if 0 \<le> k then k div 1000 else - ((- k) div 1000))"
    and "k smod 1000 = (if 0 \<le> k then k mod 1000 else - ((- k) mod 1000))"
  by (auto simp: signed_divide_int_def signed_modulo_int_def sgn_if abs_if)

lemma time_Unix_of_millis:
  fixes ms :: "64 word"
  defines "t \<equiv> time_Unix (int64_quo ms 1000) (int64_rem ms 1000 * 1000000)"
  shows "unix_nanos t = sint ms * 1000000 \<and> 0 \<le> sint (Time_nsec t)
           \<and> sint (Time_nsec t) < 1000000000"
proof -
  define k where "k = sint ms"
  have k: "- (2 ^ 63) \<le> k" "k < 2 ^ 63"
    using sint_ge [of ms] sint_lt [of ms] by (simp_all add: k_def)
  define q where "q = k sdiv 1000"
  define r where "r = k smod 1000"
  have qr: "q * 1000 + r = k"
    unfolding q_def r_def by (rule sdiv_mult_smod_eq)
  have rb: "- 1000 < r" "r < 1000"
    using pos_mod_sign [of 1000 k] pos_mod_bound [of 1000 k]
      pos_mod_sign [of 1000 "- k"] pos_mod_bound [of 1000 "- k"]
    unfolding r_def by (auto simp: sdiv_1000)
  have qb: "- 9223372036854776 \<le> q" "q \<le> 9223372036854776"
    using k qr rb by simp_all
  have qr': "k * 1000000 = q * 1000000000 + r * 1000000"
    using qr by (simp add: algebra_simps flip: qr)
  define qw where "qw = int64_quo ms 1000"
  define n0 where "n0 = int64_rem ms 1000 * 1000000"
  have qw_eq: "qw = word_of_int q"
    by (simp add: qw_def int64_quo_def q_def k_def)
  have sq: "sint qw = q"
    using qb by (simp add: qw_def int64_quo_def q_def [symmetric] k_def [symmetric] sint64_of_int)
  have sr: "sint (int64_rem ms 1000) = r"
    using rb by (simp add: int64_rem_def r_def [symmetric] k_def [symmetric] sint64_of_int)
  have sn0: "sint n0 = r * 1000000"
    using rb sr by (simp add: n0_def sint_word_ariths signed_take_bit_int_eq_self)
  have goal: "unix_nanos (time_Unix qw n0) = k * 1000000
      \<and> 0 \<le> sint (Time_nsec (time_Unix qw n0)) \<and> sint (Time_nsec (time_Unix qw n0)) < 1000000000"
  proof (cases "r < 0")
    case False
    then have nb: "0 \<le> sint n0" "sint n0 < 1000000000"
      using rb sn0 by simp_all
    then have tu: "time_Unix qw n0 = \<lparr>Time_sec = qw + unixToInternal, Time_nsec = ucast n0\<rparr>"
      by (simp add: time_Unix_def word_sless_alt word_sle_eq)
    have s1: "sint (qw + unixToInternal) = q + 62135596800"
      using qb sq by (simp add: unixToInternal_def sint_word_ariths signed_take_bit_int_eq_self)
    have s2: "sint (ucast n0 :: 32 word) = sint n0"
      using nb by (intro sint32_ucast) simp_all
    show ?thesis
      using nb by (simp add: tu unix_nanos_def s1 s2 sn0 qr') (simp add: unixToInternal_def)
  next
    case True
    then have nb: "- 1000000000 < sint n0" "sint n0 < 0"
      using rb sn0 by simp_all
    then have "sint n0 sdiv 1000000000 = 0"
      by (simp add: signed_divide_int_def)
    then have n: "int64_quo n0 1000000000 = 0"
      by (simp add: int64_quo_def)
    have tu: "time_Unix qw n0 =
        \<lparr>Time_sec = qw - 1 + unixToInternal, Time_nsec = ucast (n0 + 1000000000)\<rparr>"
      using nb by (simp add: time_Unix_def word_sless_alt word_sle_eq n Let_def)
    have e: "qw - 1 + unixToInternal = word_of_int (q - 1 + 62135596800)"
      by (simp add: qw_eq unixToInternal_def)
    have "sint (word_of_int (q - 1 + 62135596800) :: 64 word) = q - 1 + 62135596800"
      using qb by (intro sint64_of_int) simp_all
    with e have s1: "sint (qw - 1 + unixToInternal) = q - 1 + 62135596800"
      by (simp only:)
    have s3: "sint (n0 + 1000000000) = sint n0 + 1000000000"
      using nb by (simp add: sint_word_ariths signed_take_bit_int_eq_self)
    have s2: "sint (ucast (n0 + 1000000000) :: 32 word) = sint n0 + 1000000000"
      using nb s3 sint32_ucast [of "n0 + 1000000000"] by simp
    show ?thesis
      using nb by (simp add: tu unix_nanos_def s1 s2 sn0 qr') (simp add: unixToInternal_def)
  qed
  then show ?thesis
    by (simp add: t_def qw_def n0_def k_def)
qed

lemma scenario_create_reply:
  "ExecuteCommand (scenario_agent ((scenario_create, reply) # extra) recv)
     (prometheusCreateSnapshotTemplate (Port (Prometheus (Settings (scenario_collector compressed)))))
     s = (reply, Suc s)"
  by (simp add: scenario_create_command scenario_execute)

lemma scenario_create_ok:
  "map_of extra scenario_create = None \<Longrightarrow>
   ExecuteCommand (scenario_agent extra recv)
     (prometheusCreateSnapshotTemplate (Port (Prometheus (Settings (scenario_collector compressed)))))
     s = ((response_ok, [], None), Suc s)"
  by (simp add: scenario_create_command scenario_execute scenario_replies_def)

lemma scenario_decode:
  "Unmarshal_PrometheusSnapshotResponse scenario_json ''<html>''
     = Inl (errors_New ''unexpected end of JSON input'')"
  "Unmarshal_PrometheusSnapshotResponse scenario_json response_error
     = Inr \<lparr>Status = ''error'', Data = \<lparr>Name = []\<rparr>, Error = ''out of space''\<rparr>"
  "Unmarshal_PrometheusSnapshotResponse scenario_json response_ok
     = Inr \<lparr>Status = ''success'', Data = \<lparr>Name = scenario_name\<rparr>, Error = []\<rparr>"
  "Unmarshal_PrometheusSnapshotResponse scenario_json response_noname
     = Inr \<lparr>Status = ''success'', Data = \<lparr>Name = []\<rparr>, Error = []\<rparr>"
  by (simp_all add: scenario_json_def table_json_def response_ok_def response_error_def
      response_noname_def)

subsection \<open>A run of \<open>Collect\<close> from its steps\<close>

text \<open>
  Once the connection and the snapshot are there, a run goes one of three ways: without
  a tarball, with a tarball that could not be made, and with a tarball. Each lemma
  gives the result, the final state and the events of the run from the outcomes of the
  steps, in the order the steps are made.
\<close>

lemma Collect_uncompressed:
  fixes agent :: "'s SSHCollectingAgent"
  defines "lg \<equiv> Log (Some (''MC '' @ GetHost agent))"
  assumes plain: "\<not> CopyCompressed (Settings collector)"
      and connect: "Connect agent s0 = (None, s1)"
      and create: "createSnapshot collector json agent s1 = (Inr snapshot, s2, evs)"
      and lighten: "lightenSnapshot collector json agent
                      (filepath_Join [DataPath (Prometheus (Settings collector)),
                                      prometheusSnapshotFolder, snapshot]) s2 = (lerr, s3, evl)"
      and download: "downloadSnapshot agent
                      (filepath_Join [DataPath (Prometheus (Settings collector)),
                                      prometheusSnapshotFolder, snapshot])
                      (filepath_Join [Path collector, ''snapshot'']) s3 = (derr, s4, evd)"
      and cleanup: "removeResource agent
                      (filepath_Join [DataPath (Prometheus (Settings collector)),
                                      prometheusSnapshotFolder, snapshot]) s4 = (cerr, s5, evf)"
  shows "Collect collector json agent s0 =
           (cerr, s5,
            [lg InfoLevel [LStr ''Metrics collecting started''], CallConnect,
             lg InfoLevel [LStr ''Creating snapshot...'']] @ evs
            @ [lg InfoLevel [LStr ''Creating snapshot  OK''],
               lg InfoLevel [LStr ''Snapshot name: '', LStr snapshot],
               lg InfoLevel [LStr ''Lightening snapshot...'']] @ evl
            @ (case lerr of
                 Some e \<Rightarrow> [lg WarnLevel [LStr (''Failed to lighten snapshot: '' @ error_Error e)]]
               | None \<Rightarrow> [])
            @ [lg InfoLevel [LStr ''Lightening snapshot  OK''],
               lg InfoLevel [LStr ''Downloading snapshot...'']] @ evd
            @ (case derr of
                 Some e \<Rightarrow> [lg ErrorLevel [LErr e]]
               | None \<Rightarrow> [lg InfoLevel [LStr ''Downloading snapshot  OK'']])
            @ [lg InfoLevel [LStr ''Cleanup snapshot...'']] @ evf
            @ (case cerr of
                 Some e \<Rightarrow> [lg ErrorLevel [LErr e]]
               | None \<Rightarrow> [lg InfoLevel [LStr ''Cleanup snapshot  OK''],
                           lg InfoLevel [LStr ''Metrics collecting completed'']]))"
  using plain
  by (simp add: Collect_def agent_Connect_def connect create lighten download cleanup lg_def
      Let_def split: option.splits)

lemma Collect_tarball_failed:
  fixes agent :: "'s SSHCollectingAgent"
  defines "lg \<equiv> Log (Some (''MC '' @ GetHost agent))"
  assumes compressed: "CopyCompressed (Settings collector)"
      and connect: "Connect agent s0 = (None, s1)"
      and create: "createSnapshot collector json agent s1 = (Inr snapshot, s2, evs)"
      and lighten: "lightenSnapshot collector json agent
                      (filepath_Join [DataPath (Prometheus (Settings collector)),
                                      prometheusSnapshotFolder, snapshot]) s2 = (lerr, s3, evl)"
      and tarball: "tarballSnapshot agent
                      (filepath_Join [DataPath (Prometheus (Settings collector)),
                                      prometheusSnapshotFolder, snapshot])
                      temporalSnapshotTarballPath s3 = (Some terr, s4, evt)"
      and remove: "removeResource agent
                      (filepath_Join [DataPath (Prometheus (Settings collector)),
                                      prometheusSnapshotFolder, snapshot]) s4 = (rerr, s5, evr)"
  shows "Collect collector json agent s0 =
           (Some terr, s5,
            [lg InfoLevel [LStr ''Metrics collecting started''], CallConnect,
             lg InfoLevel [LStr ''Creating snapshot...'']] @ evs
            @ [lg InfoLevel [LStr ''Creating snapshot  OK''],
               lg InfoLevel [LStr ''Snapshot name: '', LStr snapshot],
               lg InfoLevel [LStr ''Lightening snapshot...'']] @ evl
            @ (case lerr of
                 Some e \<Rightarrow> [lg WarnLevel [LStr (''Failed to lighten snapshot: '' @ error_Error e)]]
               | None \<Rightarrow> [])
            @ [lg InfoLevel [LStr ''Lightening snapshot  OK''],
               lg InfoLevel [LStr ''Creating snapshot tarball...'']] @ evt
            @ [lg ErrorLevel [LErr terr], lg InfoLevel [LStr ''Cleanup snapshot...'']] @ evr
            @ (case rerr of
                 Some e \<Rightarrow> [lg ErrorLevel [LErr e]]
               | None \<Rightarrow> [lg InfoLevel [LStr ''Cleanup snapshot  OK'']]))"
  using compressed
  by (simp add: Collect_def agent_Connect_def connect create lighten tarball remove lg_def
      Let_def split: option.splits)

lemma Collect_tarball_made:
  fixes agent :: "'s SSHCollectingAgent"
  defines "lg \<equiv> Log (Some (''MC '' @ GetHost agent))"
  assumes compressed: "CopyCompressed (Settings collector)"
      and connect: "Connect agent s0 = (None, s1)"
      and create: "createSnapshot collector json agent s1 = (Inr snapshot, s2, evs)"
      and lighten: "lightenSnapshot collector json agent
                      (filepath_Join [DataPath (Prometheus (Settings collector)),
                                      prometheusSnapshotFolder, snapshot]) s2 = (lerr, s3, evl)"
      and tarball: "tarballSnapshot agent
                      (filepath_Join [DataPath (Prometheus (Settings collector)),
                                      prometheusSnapshotFolder, snapshot])
                      temporalSnapshotTarballPath s3 = (None, s4, evt)"
      and remove: "removeResource agent
                      (filepath_Join [DataPath (Prometheus (Settings collector)),
                                      prometheusSnapshotFolder, snapshot]) s4 = (rerr, s5, evr)"
      and download: "downloadSnapshot agent temporalSnapshotTarballPath
                      (filepath_Join [Path collector, ''snapshot'']) s5 = (derr, s6, evd)"
      and cleanup: "removeResource agent temporalSnapshotTarballPath s6 = (cerr, s7, evf)"
  shows "Collect collector json agent s0 =
           (cerr, s7,
            [lg InfoLevel [LStr ''Metrics collecting started''], CallConnect,
             lg InfoLevel [LStr ''Creating snapshot...'']] @ evs
            @ [lg InfoLevel [LStr ''Creating snapshot  OK''],
               lg InfoLevel [LStr ''Snapshot name: '', LStr snapshot],
               lg InfoLevel [LStr ''Lightening snapshot...'']] @ evl
            @ (case lerr of
                 Some e \<Rightarrow> [lg WarnLevel [LStr (''Failed to lighten snapshot: '' @ error_Error e)]]
               | None \<Rightarrow> [])
            @ [lg InfoLevel [LStr ''Lightening snapshot  OK''],
               lg InfoLevel [LStr ''Creating snapshot tarball...'']] @ evt
            @ [lg InfoLevel [LStr ''Creating snapshot tarball  OK''],
               lg InfoLevel [LStr ''Cleanup snapshot...'']] @ evr
            @ (case rerr of
                 Some e \<Rightarrow> [lg ErrorLevel [LErr e]]
               | None \<Rightarrow> [lg InfoLevel [LStr ''Cleanup snapshot  OK'']])
            @ [lg InfoLevel [LStr ''Downloading snapshot...'']] @ evd
            @ (case derr of
                 Some e \<Rightarrow> [lg ErrorLevel [LErr e]]
               | None \<Rightarrow> [lg InfoLevel [LStr ''Downloading snapshot  OK'']])
            @ [lg InfoLevel [LStr ''Cleanup snapshot tarball...'']] @ evf
            @ (case cerr of
                 Some e \<Rightarrow> [lg ErrorLevel [LErr e]]
               | None \<Rightarrow> [lg InfoLevel [LStr ''Cleanup snapshot tarball  OK''],
                           lg InfoLevel [LStr ''Metrics collecting completed'']]))"
  using compressed
  by (simp add: Collect_def agent_Connect_def connect create lighten tarball remove download
      cleanup lg_def Let_def split: option.splits)

subsection \<open>The scenario, run by run\<close>

lemma scenario_tarball_command:
  "createSnapshotTarballTemplate temporalSnapshotTarballPath scenario_src = scenario_tarball"
  by (simp add: createSnapshotTarballTemplate_def temporalSnapshotTarballPath_def
      scenario_src_def scenario_tarball_def)

lemma scenario_createSnapshot:
  assumes "map_of extra scenario_create = None"
  shows "createSnapshot (scenario_collector compressed) scenario_json (scenario_agent extra recv) s
         = (Inr scenario_name, Suc s, [CallExecuteCommand scenario_create])"
  using assms
  by (simp add: createSnapshot_def scenario_create_command agent_ExecuteCommand_def
      scenario_execute scenario_replies_def scenario_json_def table_json_def
      prometheusSnapshotSuccess_def response_ok_def response_error_def response_noname_def)

lemma scenario_replies_tarball: "map_of scenario_replies scenario_tarball = None"
  by (simp add: scenario_replies_def scenario_texts scenario_tarball_def)

lemma scenario_tarball_made:
  assumes "map_of extra scenario_tarball = None"
  shows "tarballSnapshot (scenario_agent extra recv) scenario_src temporalSnapshotTarballPath s
         = (None, Suc s, [CallExecuteCommand scenario_tarball])"
  using assms
  by (simp add: tarballSnapshot_def agent_ExecuteCommand_def scenario_tarball_command
      scenario_execute scenario_replies_tarball)

lemma scenario_tarball_failed:
  assumes "map_of extra scenario_tarball = Some (sout, serr, None)" and "serr \<noteq> []"
  shows "tarballSnapshot (scenario_agent extra recv) scenario_src temporalSnapshotTarballPath s
         = (Some (errors_New (''Failed to create snapshot tarball: '' @ serr)), Suc s,
            [CallExecuteCommand scenario_tarball])"
  using assms
  by (simp add: tarballSnapshot_def agent_ExecuteCommand_def scenario_tarball_command
      scenario_execute)

lemma scenario_downloadSnapshot:
  "downloadSnapshot (scenario_agent extra recv) src dest s
   = (case recv of
        None \<Rightarrow> None
      | Some e \<Rightarrow> Some (errors_New (''Failed to receive snapshot ('' @ error_Error e @ '')'')),
      Suc s, [CallReceiveDir src dest])"
  by (simp add: downloadSnapshot_def agent_ReceiveDir_def scenario_agent_calls
      split: option.splits)

lemma scenario_remove_failing:
  assumes "map_of extra (''rm -rf '' @ path) = Some (sout, serr, Some e)"
  shows "removeResource (scenario_agent extra recv) path s =
     (Some (errors_New (''Failed to remove resource '' @ [CHR 0x27] @ path
                          @ [CHR 0x27] @ '' ('' @ error_Error e @ '')'')),
      Suc s, [CallExecuteCommand (''rm -rf '' @ path)])"
  using assms
  by (simp add: removeResource_def agent_ExecuteCommand_def prometheusRemoveResourceTemplate_def
      scenario_execute)

lemma tarball_failure_steps:
  fixes compressed
  defines "src \<equiv> filepath_Join [DataPath (Prometheus (Settings (scenario_collector compressed))),
                                  prometheusSnapshotFolder, scenario_name]"
  shows "Connect tarball_failure_agent s = (None, Suc s)"
    and "createSnapshot (scenario_collector compressed) scenario_json tarball_failure_agent s
         = (Inr scenario_name, Suc s, [CallExecuteCommand scenario_create])"
    and "lightenSnapshot (scenario_collector compressed) scenario_json tarball_failure_agent src s
         = (None, Suc (Suc (Suc (Suc s))), scenario_lightening)"
    and "tarballSnapshot tarball_failure_agent src temporalSnapshotTarballPath s
         = (Some (errors_New ''Failed to create snapshot tarball: tar: write error''), Suc s,
            [CallExecuteCommand scenario_tarball])"
    and "removeResource tarball_failure_agent src s
         = (Some (errors_New (''Failed to remove resource '' @ [CHR 0x27] @ scenario_src
                                @ [CHR 0x27] @ '' (connection lost)'')), Suc s,
            [CallExecuteCommand (''rm -rf '' @ scenario_src)])"
    and "GetHost tarball_failure_agent = ''node1''"
proof -
  let ?extra = "[(scenario_tarball, ([], ''tar: write error'', None)),
                 (''rm -rf '' @ scenario_src, ([], [], Some (errors_New ''connection lost'')))]"
  have agent: "tarball_failure_agent = scenario_agent ?extra None"
    by (simp add: tarball_failure_agent_def)
  show "Connect tarball_failure_agent s = (None, Suc s)"
    and "GetHost tarball_failure_agent = ''node1''"
    by (simp_all add: agent scenario_agent_calls)
  show "createSnapshot (scenario_collector compressed) scenario_json tarball_failure_agent s
         = (Inr scenario_name, Suc s, [CallExecuteCommand scenario_create])"
    unfolding agent
    by (subst scenario_createSnapshot) (simp_all add: scenario_texts scenario_tarball_def)
  show "lightenSnapshot (scenario_collector compressed) scenario_json tarball_failure_agent src s
         = (None, Suc (Suc (Suc (Suc s))), scenario_lightening)"
    unfolding agent src_def scenario_src_eq
    by (subst scenario_lighten) (simp_all add: scenario_texts scenario_tarball_def)
  show "tarballSnapshot tarball_failure_agent src temporalSnapshotTarballPath s
         = (Some (errors_New ''Failed to create snapshot tarball: tar: write error''), Suc s,
            [CallExecuteCommand scenario_tarball])"
    unfolding agent src_def scenario_src_eq
    by (subst scenario_tarball_failed [where sout = "[]" and serr = "''tar: write error''"])
       simp_all
  show "removeResource tarball_failure_agent src s
         = (Some (errors_New (''Failed to remove resource '' @ [CHR 0x27] @ scenario_src
                                @ [CHR 0x27] @ '' (connection lost)'')), Suc s,
            [CallExecuteCommand (''rm -rf '' @ scenario_src)])"
    unfolding agent src_def scenario_src_eq
    by (subst scenario_remove_failing [where sout = "[]" and serr = "[]"
          and e = "errors_New ''connection lost''"])
       (simp_all add: scenario_texts scenario_tarball_def)
qed

lemma scenario_steps:
  fixes extra recv compressed
  defines "agent \<equiv> scenario_agent extra recv"
      and "src \<equiv> filepath_Join [DataPath (Prometheus (Settings (scenario_collector compressed))),
                                  prometheusSnapshotFolder, scenario_name]"
  assumes quiet: "list_all (\<lambda>c. map_of extra c = None)
                    [scenario_create, ''ls -d '' @ scenario_src @ ''/*/'',
                     ''cat '' @ blockA @ ''/meta.json'', ''rm -rf '' @ blockA,
                     ''cat '' @ blockB @ ''/meta.json'', scenario_tarball,
                     ''rm -rf '' @ scenario_src]"
  shows "Connect agent s = (None, Suc s)"
    and "createSnapshot (scenario_collector compressed) scenario_json agent s
         = (Inr scenario_name, Suc s, [CallExecuteCommand scenario_create])"
    and "lightenSnapshot (scenario_collector compressed) scenario_json agent src s
         = (None, Suc (Suc (Suc (Suc s))), scenario_lightening)"
    and "tarballSnapshot agent src temporalSnapshotTarballPath s
         = (None, Suc s, [CallExecuteCommand scenario_tarball])"
    and "removeResource agent src s
         = (None, Suc s, [CallExecuteCommand (''rm -rf '' @ scenario_src)])"
    and "GetHost agent = ''node1''"
proof -
  from quiet have q: "map_of extra scenario_create = None"
    "map_of extra (''ls -d '' @ scenario_src @ ''/*/'') = None"
    "map_of extra (''cat '' @ blockA @ ''/meta.json'') = None"
    "map_of extra (''rm -rf '' @ blockA) = None"
    "map_of extra (''cat '' @ blockB @ ''/meta.json'') = None"
    "map_of extra scenario_tarball = None"
    "map_of extra (''rm -rf '' @ scenario_src) = None"
    by simp_all
  show "Connect agent s = (None, Suc s)" and "GetHost agent = ''node1''"
    by (simp_all add: agent_def scenario_agent_calls)
  show "createSnapshot (scenario_collector compressed) scenario_json agent s
         = (Inr scenario_name, Suc s, [CallExecuteCommand scenario_create])"
    unfolding agent_def by (rule scenario_createSnapshot [OF q(1)])
  show "lightenSnapshot (scenario_collector compressed) scenario_json agent src s
         = (None, Suc (Suc (Suc (Suc s))), scenario_lightening)"
    unfolding agent_def src_def scenario_src_eq by (rule scenario_lighten [OF q(2-5)])
  show "tarballSnapshot agent src temporalSnapshotTarballPath s
         = (None, Suc s, [CallExecuteCommand scenario_tarball])"
    unfolding agent_def src_def scenario_src_eq by (rule scenario_tarball_made [OF q(6)])
  show "removeResource agent src s
         = (None, Suc s, [CallExecuteCommand (''rm -rf '' @ scenario_src)])"
    unfolding agent_def src_def scenario_src_eq by (rule scenario_remove [OF q(7)])
qed

lemma scenario_quiet:
  "list_all (\<lambda>c. map_of [] c = None)
     [scenario_create, ''ls -d '' @ scenario_src @ ''/*/'',
      ''cat '' @ blockA @ ''/meta.json'', ''rm -rf '' @ blockA,
      ''cat '' @ blockB @ ''/meta.json'', scenario_tarball, ''rm -rf '' @ scenario_src]"
  "list_all (\<lambda>c. map_of [(''rm -rf /tmp/InstaclustrCollection.tar'',
                                ([], [], Some (errors_New ''connection lost'')))] c = None)
     [scenario_create, ''ls -d '' @ scenario_src @ ''/*/'',
      ''cat '' @ blockA @ ''/meta.json'', ''rm -rf '' @ blockA,
      ''cat '' @ blockB @ ''/meta.json'', scenario_tarball, ''rm -rf '' @ scenario_src]"
  by (simp_all add: scenario_texts scenario_tarball_def)

text \<open>
  The commands and the downloads of a run that has made and lightened its snapshot,
  in each of its three ways.
\<close>

lemma Collect_commands:
  fixes agent :: "'s SSHCollectingAgent" and collector :: MetricsCollector and snapshot :: string
  defines "src \<equiv> filepath_Join [DataPath (Prometheus (Settings collector)),
                                 prometheusSnapshotFolder, snapshot]"
      and "dest \<equiv> filepath_Join [Path collector, ''snapshot'']"
      and "create_command \<equiv>
             prometheusCreateSnapshotTemplate (Port (Prometheus (Settings collector)))"
  assumes connect: "Connect agent s0 = (None, s1)"
      and create: "createSnapshot collector json agent s1 = (Inr snapshot, s2, evs)"
      and lighten: "lightenSnapshot collector json agent src s2 = (lerr, s3, evl)"
  shows "(\<not> CopyCompressed (Settings collector) \<longrightarrow>
            received (snd (snd (Collect collector json agent s0))) = [(src, dest)]
            \<and> executed (snd (snd (Collect collector json agent s0)))
                = [create_command] @ executed evl @ [prometheusRemoveResourceTemplate src])
       \<and> (CopyCompressed (Settings collector)
            \<and> fst (tarballSnapshot agent src temporalSnapshotTarballPath s3) = None \<longrightarrow>
            received (snd (snd (Collect collector json agent s0)))
              = [(temporalSnapshotTarballPath, dest)]
            \<and> executed (snd (snd (Collect collector json agent s0)))
                = [create_command] @ executed evl
                  @ [createSnapshotTarballTemplate temporalSnapshotTarballPath src,
                     prometheusRemoveResourceTemplate src,
                     prometheusRemoveResourceTemplate temporalSnapshotTarballPath])
       \<and> (CopyCompressed (Settings collector)
            \<and> fst (tarballSnapshot agent src temporalSnapshotTarballPath s3) \<noteq> None \<longrightarrow>
            received (snd (snd (Collect collector json agent s0))) = []
            \<and> executed (snd (snd (Collect collector json agent s0)))
                = [create_command] @ executed evl
                  @ [createSnapshotTarballTemplate temporalSnapshotTarballPath src,
                     prometheusRemoveResourceTemplate src])"
proof -
  have evs: "evs = [CallExecuteCommand create_command]"
    using createSnapshot_events [of collector json agent s1] create
    by (simp add: create_command_def)
  have evl: "received evl = []"
    using lightenSnapshot_received [of collector json agent src s2] lighten by simp
  have events:
    "snd (snd (removeResource agent path s)) = [CallExecuteCommand (prometheusRemoveResourceTemplate path)]"
    "snd (snd (tarballSnapshot agent path' path s)) =
       [CallExecuteCommand (createSnapshotTarballTemplate path path')]"
    for path path' s
    by (simp_all add: removeResource_events tarballSnapshot_events
        prometheusRemoveResourceTemplate_def createSnapshotTarballTemplate_def)
  have plain: ?thesis if off: "\<not> CopyCompressed (Settings collector)"
  proof -
    obtain derr s4 evd where download: "downloadSnapshot agent src dest s3 = (derr, s4, evd)"
      by (cases "downloadSnapshot agent src dest s3") auto
    obtain cerr s5 evf where cleanup: "removeResource agent src s4 = (cerr, s5, evf)"
      by (cases "removeResource agent src s4") auto
    have evd: "evd = [CallReceiveDir src dest]"
      using downloadSnapshot_events [of agent src dest s3] download by simp
    have evf: "evf = [CallExecuteCommand (prometheusRemoveResourceTemplate src)]"
      using events(1) [of src s4] cleanup by simp
    note run = Collect_uncompressed [OF off connect create lighten [unfolded src_def]
        download [unfolded src_def dest_def] cleanup [unfolded src_def]]
    show ?thesis
      using off by (simp add: run evs evl evd evf src_def dest_def split: option.splits)
  qed
  have tarred: ?thesis if on: "CopyCompressed (Settings collector)"
  proof -
    obtain terr s4 evt where tarball:
      "tarballSnapshot agent src temporalSnapshotTarballPath s3 = (terr, s4, evt)"
      by (cases "tarballSnapshot agent src temporalSnapshotTarballPath s3") auto
    obtain rerr s5 evr where remove: "removeResource agent src s4 = (rerr, s5, evr)"
      by (cases "removeResource agent src s4") auto
    have evt: "evt = [CallExecuteCommand
                        (createSnapshotTarballTemplate temporalSnapshotTarballPath src)]"
      using events(2) [of src temporalSnapshotTarballPath s3] tarball by simp
    have evr: "evr = [CallExecuteCommand (prometheusRemoveResourceTemplate src)]"
      using events(1) [of src s4] remove by simp
    show ?thesis
    proof (cases terr)
      case (Some e)
      note run = Collect_tarball_failed [OF on connect create lighten [unfolded src_def]
          tarball [unfolded src_def Some] remove [unfolded src_def]]
      show ?thesis
        using on
        by (simp add: run tarball [unfolded src_def] Some evs evl evt evr src_def
            split: option.splits)
    next
      case None
      obtain derr s6 evd where download:
        "downloadSnapshot agent temporalSnapshotTarballPath dest s5 = (derr, s6, evd)"
        by (cases "downloadSnapshot agent temporalSnapshotTarballPath dest s5") auto
      obtain cerr s7 evf where cleanup:
        "removeResource agent temporalSnapshotTarballPath s6 = (cerr, s7, evf)"
        by (cases "removeResource agent temporalSnapshotTarballPath s6") auto
      have evd: "evd = [CallReceiveDir temporalSnapshotTarballPath dest]"
        using downloadSnapshot_events [of agent temporalSnapshotTarballPath dest s5] download
        by simp
      have evf: "evf = [CallExecuteCommand
                          (prometheusRemoveResourceTemplate temporalSnapshotTarballPath)]"
        using events(1) [of temporalSnapshotTarballPath s6] cleanup by simp
      note run = Collect_tarball_made [OF on connect create lighten [unfolded src_def]
          tarball [unfolded src_def None] remove [unfolded src_def]
          download [unfolded dest_def] cleanup]
      show ?thesis
        using on
        by (simp add: run tarball [unfolded src_def] None evs evl evt evr evd evf src_def
            dest_def split: option.splits)
    qed
  qed
  from plain tarred show ?thesis by blast
qed

subsection \<open>Joining a path with an empty last element\<close>

lemma split_on_not_Nil: "split_on c xs \<noteq> []"
  by (induction xs) (auto split: list.splits)

lemma split_on_snoc: "split_on c (xs @ [c]) = split_on c xs @ [[]]"
  by (induction xs) (auto simp: split_on_not_Nil split: list.splits)

lemma clean_elems_snoc: "clean_elems rooted out (es @ [[]]) = clean_elems rooted out es"
  by (induction es arbitrary: out) auto

lemma strings_Join_snoc:
  "es \<noteq> [] \<Longrightarrow> strings_Join (es @ [[]]) sep = strings_Join es sep @ sep"
  by (induction es sep rule: strings_Join.induct) auto

lemma strings_Join_Nil_iff: "e \<noteq> [] \<Longrightarrow> strings_Join (e # es) sep \<noteq> []"
  by (cases es) auto

lemma filepath_Clean_slash:
  assumes "path \<noteq> []"
  shows "filepath_Clean (path @ ''/'') = filepath_Clean path"
proof -
  have "hd (path @ ''/'') = hd path"
    using assms by simp
  then show ?thesis
    using assms split_on_snoc [of "CHR ''/''" path]
    by (simp add: filepath_Clean_def clean_elems_snoc)
qed

lemma filepath_Join_empty_last: "filepath_Join (elem @ [[]]) = filepath_Join elem"
proof (cases "dropWhile (\<lambda>e. e = []) elem")
  case Nil
  then have "\<forall>e \<in> set elem. e = []"
    by (simp add: dropWhile_eq_Nil_conv)
  then have a: "dropWhile (\<lambda>e. e = []) (elem @ [[]]) = []"
    by (simp add: dropWhile_eq_Nil_conv)
  show ?thesis
    by (simp only: filepath_Join_def Nil a list.case)
next
  case (Cons e es)
  then have e: "e \<noteq> []"
    using hd_dropWhile [of "\<lambda>e. e = []" elem] by auto
  have "dropWhile (\<lambda>e. e = []) elem \<noteq> []"
    using Cons by simp
  then have "\<exists>x \<in> set elem. x \<noteq> []"
    by (simp add: dropWhile_eq_Nil_conv)
  then obtain x where "x \<in> set elem" and "x \<noteq> []"
    by blast
  then have "dropWhile (\<lambda>e. e = []) (elem @ [[]]) = dropWhile (\<lambda>e. e = []) elem @ [[]]"
    by (rule dropWhile_append1)
  then have d: "dropWhile (\<lambda>e. e = []) (elem @ [[]]) = (e # es) @ [[]]"
    by (simp only: Cons)
  have j: "strings_Join ((e # es) @ [[]]) ''/'' = strings_Join (e # es) ''/'' @ ''/''"
    by (rule strings_Join_snoc) simp
  have "filepath_Join (elem @ [[]]) = filepath_Clean (strings_Join ((e # es) @ [[]]) ''/'')"
    by (simp only: filepath_Join_def d append_Cons list.case)
  also have "\<dots> = filepath_Clean (strings_Join (e # es) ''/'' @ ''/'')"
    by (simp only: j)
  also have "\<dots> = filepath_Clean (strings_Join (e # es) ''/'')"
    using strings_Join_Nil_iff [OF e] by (rule filepath_Clean_slash)
  also have "\<dots> = filepath_Join elem"
    by (simp only: filepath_Join_def Cons list.case)
  finally show ?thesis .
qed

lemma default_snapshots_root:
  "filepath_Join [DataPath (Prometheus MetricsCollectorDefaultSettings), prometheusSnapshotFolder]
     = ''/var/data/snapshots''"
  by (simp add: filepath_Join_def filepath_Clean_def MetricsCollectorDefaultSettings_def
      prometheusSnapshotFolder_def)

lemma noname_steps:
  fixes compressed
  defines "root \<equiv> filepath_Join [DataPath (Prometheus (Settings (scenario_collector compressed))),
                                   prometheusSnapshotFolder]"
  shows "Connect noname_agent s = (None, Suc s)"
    and "ExecuteCommand noname_agent
           (prometheusCreateSnapshotTemplate
              (Port (Prometheus (Settings (scenario_collector compressed))))) s
         = ((response_noname, [], None), Suc s)"
    and "root = ''/var/data/snapshots''"
    and "lightenSnapshot (scenario_collector compressed) scenario_json noname_agent root s
         = (None, Suc s, [CallExecuteCommand ''ls -d /var/data/snapshots/*/''])"
    and "tarballSnapshot noname_agent root temporalSnapshotTarballPath s
         = (None, Suc s,
            [CallExecuteCommand ''tar -cf /tmp/InstaclustrCollection.tar -C /var/data/snapshots .''])"
proof -
  show "Connect noname_agent s = (None, Suc s)"
    by (simp add: noname_agent_def scenario_agent_calls)
  show "ExecuteCommand noname_agent
           (prometheusCreateSnapshotTemplate
              (Port (Prometheus (Settings (scenario_collector compressed))))) s
         = ((response_noname, [], None), Suc s)"
    unfolding noname_agent_def by (rule scenario_create_reply)
  show root: "root = ''/var/data/snapshots''"
    by (simp add: root_def filepath_Join_def filepath_Clean_def scenario_collector_def
        MetricsCollectorDefaultSettings_def prometheusSnapshotFolder_def)
  show "lightenSnapshot (scenario_collector compressed) scenario_json noname_agent root s
         = (None, Suc s, [CallExecuteCommand ''ls -d /var/data/snapshots/*/''])"
    unfolding root
    by (simp add: lightenSnapshot_def getBlockList_def agent_ExecuteCommand_def
        getSnapshotBlockListTemplate_def noname_agent_def scenario_execute scenario_replies_def
        scenario_texts strings_Fields_def)
  show "tarballSnapshot noname_agent root temporalSnapshotTarballPath s
         = (None, Suc s,
            [CallExecuteCommand ''tar -cf /tmp/InstaclustrCollection.tar -C /var/data/snapshots .''])"
    unfolding root
    by (simp add: tarballSnapshot_def agent_ExecuteCommand_def createSnapshotTarballTemplate_def
        temporalSnapshotTarballPath_def noname_agent_def scenario_execute scenario_replies_def
        scenario_texts)
qed

subsection \<open>The loop of the lightening step\<close>

text \<open>
  The loop over a listing handles its blocks one after the other: the blocks after a
  block are handled from the state the block left, with their own indices. Every pass
  starts by reading the metadata of its block, so every listed block is visited.
\<close>

lemma lightenBlocks_append:
  "lightenBlocks collector json agent index nblocks (pre @ post) s =
     (fst (lightenBlocks collector json agent (index + length pre) nblocks post
             (fst (lightenBlocks collector json agent index nblocks pre s))),
      snd (lightenBlocks collector json agent index nblocks pre s)
      @ snd (lightenBlocks collector json agent (index + length pre) nblocks post
               (fst (lightenBlocks collector json agent index nblocks pre s))))"
  by (induction pre arbitrary: index s) (simp_all add: split_beta Let_def)

lemma lightenBlock_reads_metadata:
  "\<exists>more. snd (lightenBlock collector json agent index nblocks block s)
            = CallExecuteCommand (getSnapshotBlockMetadataTemplate block) # more"
proof -
  obtain res s1 ev1 where m: "getBlockMetadata json agent block s = (res, s1, ev1)"
    by (cases "getBlockMetadata json agent block s") auto
  have ev1: "ev1 = [CallExecuteCommand (getSnapshotBlockMetadataTemplate block)]"
    using getBlockMetadata_events [of json agent block s] m
    by (simp add: getSnapshotBlockMetadataTemplate_def)
  show ?thesis
    by (simp add: lightenBlock_def m ev1 Let_def split_beta split: sum.splits option.splits)
qed

lemma lightenBlocks_visits_all:
  "block \<in> set blocks \<Longrightarrow>
   CallExecuteCommand (getSnapshotBlockMetadataTemplate block)
     \<in> set (snd (lightenBlocks collector json agent index nblocks blocks s))"
proof (induction blocks arbitrary: index s)
  case Nil
  then show ?case by simp
next
  case (Cons b rest)
  obtain more where b: "snd (lightenBlock collector json agent index nblocks b s)
            = CallExecuteCommand (getSnapshotBlockMetadataTemplate b) # more"
    using lightenBlock_reads_metadata [of collector json agent index nblocks b s] by blast
  show ?case
  proof (cases "block = b")
    case True
    then show ?thesis
      by (simp add: split_beta Let_def b)
  next
    case False
    with Cons.prems have "block \<in> set rest" by simp
    then show ?thesis
      using Cons.IH [of "index + 1" "fst (lightenBlock collector json agent index nblocks b s)"]
      by (simp add: split_beta Let_def)
  qed
qed

lemma lightenBlocks_failed_read:
  assumes m: "getBlockMetadata json agent block s0 = (Inl e, s1, ev1)"
  shows "lightenBlocks collector json agent index nblocks (block # rest) s0 =
          (fst (lightenBlocks collector json agent (index + 1) nblocks rest s1),
           [CallExecuteCommand (''cat '' @ block @ ''/meta.json''),
            Log None WarnLevel [LStr (''Ignoring block ('' @ block @ ''): '' @ error_Error e)]]
           @ snd (lightenBlocks collector json agent (index + 1) nblocks rest s1))"
proof -
  have ev1: "ev1 = [CallExecuteCommand (''cat '' @ block @ ''/meta.json'')]"
    using getBlockMetadata_events [of json agent block s0] m by simp
  show ?thesis
    by (simp add: lightenBlock_def m ev1 split_beta)
qed

lemma lightenSnapshot_listed:
  assumes l: "getBlockList agent src s = (Inr blocks, s1, ev1)"
  shows "lightenSnapshot collector json agent src s =
           (None, fst (lightenBlocks collector json agent 0 (length blocks) blocks s1),
            CallExecuteCommand (getSnapshotBlockListTemplate src)
            # snd (lightenBlocks collector json agent 0 (length blocks) blocks s1))"
proof -
  have ev1: "ev1 = [CallExecuteCommand (getSnapshotBlockListTemplate src)]"
    using getBlockList_events [of agent src s] l
    by (simp add: getSnapshotBlockListTemplate_def)
  show ?thesis
    by (simp add: lightenSnapshot_def l ev1 split_beta Let_def)
qed

lemma failing_block_fields:
  "strings_Fields failing_block_listing = [blockA, blockD, blockB]"
  by (simp add: strings_Fields_def space_width_def failing_block_listing_def blockA_def
      blockB_def blockD_def)

lemma failing_block_steps:
  shows "getBlockList failing_block_agent scenario_src s
         = (Inr [blockA, blockD, blockB], Suc s,
            [CallExecuteCommand (''ls -d '' @ scenario_src @ ''/*/'')])"
    and "lightenBlock (scenario_collector compressed) scenario_json failing_block_agent
           index nblocks blockA s
         = (Suc (Suc s),
            [CallExecuteCommand (''cat '' @ blockA @ ''/meta.json''),
             Log None InfoLevel
               [LStr ''Block '', LInt (int index + 1), LStr ''/'', LInt (int nblocks), LStr '' '',
                LStr ''01A'', LStr ''  '', LTime (blockTimestamp 0), LStr '' .. '',
                LTime (blockTimestamp 500), LStr '': '', LStr ''will be skipped''],
             CallExecuteCommand (''rm -rf '' @ blockA)])"
    and "lightenBlock (scenario_collector compressed) scenario_json failing_block_agent
           index nblocks blockB s
         = (Suc s,
            [CallExecuteCommand (''cat '' @ blockB @ ''/meta.json''),
             Log None InfoLevel
               [LStr ''Block '', LInt (int index + 1), LStr ''/'', LInt (int nblocks), LStr '' '',
                LStr ''01B'', LStr ''  '', LTime (blockTimestamp 10000), LStr '' .. '',
                LTime (blockTimestamp 20000), LStr '': '', LStr ''falls into the time span'']])"
    and "getBlockMetadata scenario_json failing_block_agent blockD s
         = (Inl (errors_New ''Failed to unmarshal block metadata (unexpected end of JSON input)''),
            Suc s, [CallExecuteCommand (''cat '' @ blockD @ ''/meta.json'')])"
proof -
  let ?extra = "[(''ls -d '' @ scenario_src @ ''/*/'', (failing_block_listing, [], None))]"
  have q: "map_of ?extra (''cat '' @ blockA @ ''/meta.json'') = None"
    "map_of ?extra (''cat '' @ blockB @ ''/meta.json'') = None"
    "map_of ?extra (''cat '' @ blockD @ ''/meta.json'') = None"
    "map_of ?extra (''rm -rf '' @ blockA) = None"
    by (simp_all add: scenario_texts)
  show "getBlockList failing_block_agent scenario_src s
         = (Inr [blockA, blockD, blockB], Suc s,
            [CallExecuteCommand (''ls -d '' @ scenario_src @ ''/*/'')])"
    by (simp add: getBlockList_def agent_ExecuteCommand_def getSnapshotBlockListTemplate_def
        failing_block_agent_def scenario_execute failing_block_fields)
  show "lightenBlock (scenario_collector compressed) scenario_json failing_block_agent
           index nblocks blockA s
         = (Suc (Suc s),
            [CallExecuteCommand (''cat '' @ blockA @ ''/meta.json''),
             Log None InfoLevel
               [LStr ''Block '', LInt (int index + 1), LStr ''/'', LInt (int nblocks), LStr '' '',
                LStr ''01A'', LStr ''  '', LTime (blockTimestamp 0), LStr '' .. '',
                LTime (blockTimestamp 500), LStr '': '', LStr ''will be skipped''],
             CallExecuteCommand (''rm -rf '' @ blockA)])"
    by (simp add: lightenBlock_def scenario_window Let_def
        scenario_metaA [OF q(1), of None, folded failing_block_agent_def]
        scenario_remove [OF q(4), of None, folded failing_block_agent_def])
       (simp add: metaA_def)
  show "lightenBlock (scenario_collector compressed) scenario_json failing_block_agent
           index nblocks blockB s
         = (Suc s,
            [CallExecuteCommand (''cat '' @ blockB @ ''/meta.json''),
             Log None InfoLevel
               [LStr ''Block '', LInt (int index + 1), LStr ''/'', LInt (int nblocks), LStr '' '',
                LStr ''01B'', LStr ''  '', LTime (blockTimestamp 10000), LStr '' .. '',
                LTime (blockTimestamp 20000), LStr '': '', LStr ''falls into the time span'']])"
    by (simp add: lightenBlock_def scenario_window Let_def
        scenario_metaB [OF q(2), of None, folded failing_block_agent_def])
       (simp add: metaB_def)
  show "getBlockMetadata scenario_json failing_block_agent blockD s
         = (Inl (errors_New ''Failed to unmarshal block metadata (unexpected end of JSON input)''),
            Suc s, [CallExecuteCommand (''cat '' @ blockD @ ''/meta.json'')])"
    by (rule scenario_metaD [OF q(3), of None, folded failing_block_agent_def])
qed

subsection \<open>The claims\<close>

text \<open>
  C1. In the pass of the loop for a block whose metadata was read and decoded with
  version 1, no remove command is issued for the block exactly when (a) its minimal or
  its maximal timestamp is after \<open>TimestampFrom\<close> and (b) its minimal or its maximal
  timestamp is before \<open>TimestampTo\<close>. In the documented scenario the filter reads both
  blocks and removes block A only.
\<close>

theorem lightenBlock_keeps_iff_in_window:
  assumes "getBlockMetadata json agent block s = (Inr metadata, s1, ev1)"
      and "Version metadata = 1"
  shows "((CallExecuteCommand (prometheusRemoveResourceTemplate block)
             \<notin> set (snd (lightenBlock collector json agent index nblocks block s)))
          = ((time_After (blockTimestamp (MinTime metadata)) (TimestampFrom collector)
                \<or> time_After (blockTimestamp (MaxTime metadata)) (TimestampFrom collector))
             \<and> (time_Before (blockTimestamp (MinTime metadata)) (TimestampTo collector)
                \<or> time_Before (blockTimestamp (MaxTime metadata)) (TimestampTo collector))))
         \<and> executed (snd (snd (lightenSnapshot (scenario_collector compressed) scenario_json
                                  (scenario_agent [] recv) scenario_src s0)))
             = [''ls -d '' @ scenario_src @ ''/*/'', ''cat '' @ blockA @ ''/meta.json'',
                ''rm -rf '' @ blockA, ''cat '' @ blockB @ ''/meta.json'']"
proof -
  have ev1: "ev1 = [CallExecuteCommand (''cat '' @ block @ ''/meta.json'')]"
    using getBlockMetadata_events [of json agent block s] assms(1) by simp
  obtain err s2 ev3 where r: "removeResource agent block s1 = (err, s2, ev3)"
    by (cases "removeResource agent block s1") auto
  have ev3: "ev3 = [CallExecuteCommand (''rm -rf '' @ block)]"
    using removeResource_events [of agent block s1] r by simp
  have "(CallExecuteCommand (prometheusRemoveResourceTemplate block)
           \<notin> set (snd (lightenBlock collector json agent index nblocks block s)))
        = fallsIntoTheSelectedTimeRange collector metadata"
    using assms
    by (simp add: lightenBlock_def r ev1 ev3 prometheusRemoveResourceTemplate_def Let_def
        split: option.splits)
  then show ?thesis
    by (simp add: fallsIntoTheSelectedTimeRange_def
        scenario_lighten [OF no_extra no_extra no_extra no_extra] scenario_lightening_def Let_def)
qed

theorem lightenBlock_keeps_iff_in_window_witness:
  "CallExecuteCommand (''rm -rf '' @ blockA)
     \<in> set (snd (lightenBlock (scenario_collector True) scenario_json (scenario_agent [] None)
                    0 2 blockA 3))
   \<and> CallExecuteCommand (''rm -rf '' @ blockB)
       \<notin> set (snd (lightenBlock (scenario_collector True) scenario_json (scenario_agent [] None)
                       1 2 blockB 5))"
proof -
  have va: "Version metaA = 1" and vb: "Version metaB = 1"
    by (simp_all add: metaA_def metaB_def)
  have a: "\<not> ((time_After (blockTimestamp (MinTime metaA)) (TimestampFrom (scenario_collector True))
                \<or> time_After (blockTimestamp (MaxTime metaA)) (TimestampFrom (scenario_collector True)))
             \<and> (time_Before (blockTimestamp (MinTime metaA)) (TimestampTo (scenario_collector True))
                \<or> time_Before (blockTimestamp (MaxTime metaA)) (TimestampTo (scenario_collector True))))"
    using scenario_window(1) [of True] by (simp add: fallsIntoTheSelectedTimeRange_def Let_def)
  have b: "(time_After (blockTimestamp (MinTime metaB)) (TimestampFrom (scenario_collector True))
                \<or> time_After (blockTimestamp (MaxTime metaB)) (TimestampFrom (scenario_collector True)))
             \<and> (time_Before (blockTimestamp (MinTime metaB)) (TimestampTo (scenario_collector True))
                \<or> time_Before (blockTimestamp (MaxTime metaB)) (TimestampTo (scenario_collector True)))"
    using scenario_window(2) [of True] by (simp add: fallsIntoTheSelectedTimeRange_def Let_def)
  show ?thesis
    using lightenBlock_keeps_iff_in_window [OF scenario_metaA [OF no_extra, of None 3] va,
        where collector = "scenario_collector True" and index = 0 and nblocks = 2]
      lightenBlock_keeps_iff_in_window [OF scenario_metaB [OF no_extra, of None 5] vb,
        where collector = "scenario_collector True" and index = 1 and nblocks = 2]
      a b
    by (simp add: prometheusRemoveResourceTemplate_def)
qed

text \<open>
  C2. With \<open>CopyCompressed\<close> set, whatever the tarball step returns, the remove
  command for the snapshot directory is the command executed right after the tarball
  command. When the tarball step failed, the run returns the tarball step's error,
  no download is made and nothing is executed after that remove. A failure of that
  remove is logged as an error and does not change what the run returns.
\<close>

theorem Collect_tarball_failure:
  fixes agent :: "'s SSHCollectingAgent" and collector :: MetricsCollector and snapshot :: string
  defines "src \<equiv> filepath_Join [DataPath (Prometheus (Settings collector)),
                                 prometheusSnapshotFolder, snapshot]"
  assumes compressed: "CopyCompressed (Settings collector)"
      and connect: "Connect agent s0 = (None, s1)"
      and create: "createSnapshot collector json agent s1 = (Inr snapshot, s2, evs)"
      and lighten: "lightenSnapshot collector json agent src s2 = (lerr, s3, evl)"
      and tarball: "tarballSnapshot agent src temporalSnapshotTarballPath s3 = (tarballErr, s4, evt)"
      and remove: "removeResource agent src s4 = (rerr, s5, evr)"
  shows "(\<forall>e. tarballErr = Some e \<longrightarrow>
            fst (Collect collector json agent s0) = Some e
            \<and> received (snd (snd (Collect collector json agent s0))) = [])
       \<and> (\<exists>rest. executed (snd (snd (Collect collector json agent s0)))
                   = [prometheusCreateSnapshotTemplate (Port (Prometheus (Settings collector)))]
                     @ executed evl
                     @ [createSnapshotTarballTemplate temporalSnapshotTarballPath src,
                        prometheusRemoveResourceTemplate src]
                     @ rest
                 \<and> (tarballErr \<noteq> None \<longrightarrow> rest = []))
       \<and> (\<forall>e. rerr = Some e \<longrightarrow>
            Log (Some (''MC '' @ GetHost agent)) ErrorLevel [LErr e]
              \<in> set (snd (snd (Collect collector json agent s0))))"
proof -
  have evs: "evs = [CallExecuteCommand
                     (prometheusCreateSnapshotTemplate (Port (Prometheus (Settings collector))))]"
    using createSnapshot_events [of collector json agent s1] create by simp
  have evt: "evt = [CallExecuteCommand
                     (createSnapshotTarballTemplate temporalSnapshotTarballPath src)]"
    using tarballSnapshot_events [of agent src temporalSnapshotTarballPath s3] tarball
    by (simp add: createSnapshotTarballTemplate_def)
  have evr: "evr = [CallExecuteCommand (prometheusRemoveResourceTemplate src)]"
    using removeResource_events [of agent src s4] remove
    by (simp add: prometheusRemoveResourceTemplate_def)
  have evl: "received evl = []"
    using lightenSnapshot_received [of collector json agent src s2] lighten by simp
  show ?thesis
  proof (cases tarballErr)
    case (Some terr)
    note run = Collect_tarball_failed [OF compressed connect create lighten [unfolded src_def]
        tarball [unfolded src_def Some] remove [unfolded src_def]]
    show ?thesis
      by (simp add: run Some evs evt evr evl src_def split: option.splits)
  next
    case None
    obtain derr s6 evd where download:
      "downloadSnapshot agent temporalSnapshotTarballPath
         (filepath_Join [Path collector, ''snapshot'']) s5 = (derr, s6, evd)"
      by (cases "downloadSnapshot agent temporalSnapshotTarballPath
                   (filepath_Join [Path collector, ''snapshot'']) s5") auto
    obtain cerr s7 evf where cleanup:
      "removeResource agent temporalSnapshotTarballPath s6 = (cerr, s7, evf)"
      by (cases "removeResource agent temporalSnapshotTarballPath s6") auto
    have evd: "evd = [CallReceiveDir temporalSnapshotTarballPath
                        (filepath_Join [Path collector, ''snapshot''])]"
      using downloadSnapshot_events [of agent temporalSnapshotTarballPath
          "filepath_Join [Path collector, ''snapshot'']" s5] download
      by simp
    have evf: "evf = [CallExecuteCommand (prometheusRemoveResourceTemplate temporalSnapshotTarballPath)]"
      using removeResource_events [of agent temporalSnapshotTarballPath s6] cleanup
      by (simp add: prometheusRemoveResourceTemplate_def)
    note run = Collect_tarball_made [OF compressed connect create lighten [unfolded src_def]
        tarball [unfolded src_def None] remove [unfolded src_def] download cleanup]
    show ?thesis
      by (simp add: run None evs evt evr evl evd evf src_def split: option.splits)
  qed
qed

theorem Collect_tarball_failure_witness:
  "fst (Collect (scenario_collector True) scenario_json tarball_failure_agent 0)
     = Some (errors_New ''Failed to create snapshot tarball: tar: write error'')
   \<and> received (snd (snd (Collect (scenario_collector True) scenario_json tarball_failure_agent 0)))
       = []
   \<and> executed (snd (snd (Collect (scenario_collector True) scenario_json tarball_failure_agent 0)))
       = [scenario_create, ''ls -d '' @ scenario_src @ ''/*/'', ''cat '' @ blockA @ ''/meta.json'',
          ''rm -rf '' @ blockA, ''cat '' @ blockB @ ''/meta.json'', scenario_tarball,
          ''rm -rf '' @ scenario_src]
   \<and> Log (Some ''MC node1'') ErrorLevel
         [LErr (errors_New (''Failed to remove resource '' @ [CHR 0x27] @ scenario_src
                              @ [CHR 0x27] @ '' (connection lost)''))]
       \<in> set (snd (snd (Collect (scenario_collector True) scenario_json tarball_failure_agent 0)))"
proof -
  note f = tarball_failure_steps
  have compressed: "CopyCompressed (Settings (scenario_collector True))"
    by (simp add: scenario_collector_def)
  show ?thesis
    using Collect_tarball_failure [OF compressed f(1) [of 0] f(2) f(3) f(4) f(5)]
    by (simp add: f(6) scenario_create_command scenario_src_eq scenario_tarball_command
        prometheusRemoveResourceTemplate_def scenario_lightening_def)
qed

text \<open>
  C3 (the code departs from the specification). A remove command that writes to its
  standard error while the agent reports no transport error: \<open>removeResource\<close>
  returns no error and the resource counts as removed. The specification makes a
  non-empty standard error a failure, as the four other commands of the collector do;
  only a transport error makes \<open>removeResource\<close> fail (\<open>removeResource_run\<close>).
\<close>

theorem removeResource_ignores_stderr:
  "removeResource denied_agent ''/var/data/snapshots/abc'' 0 =
     (None, 1, [CallExecuteCommand ''rm -rf /var/data/snapshots/abc''])"
  by (simp add: removeResource_def agent_ExecuteCommand_def prometheusRemoveResourceTemplate_def
      denied_agent_def table_agent_def)

text \<open>
  C4. The lightening step returns an error exactly when the listing of the blocks
  does, and that error is the listing's. Once the blocks are listed, the step returns
  success and is the listing followed by the loop over all the listed blocks,
  whatever happens to each block: the metadata of every listed block is read. A block
  of the listing whose metadata cannot be read or decoded, wherever it stands, adds
  the read and the warning to the events of the step and nothing else (no remove is
  issued for it), and the blocks after it are handled as they would be without it,
  from the state the failed read left.
\<close>

theorem lightenSnapshot_only_listing_fails:
  "fst (lightenSnapshot collector json agent src s) =
     (case fst (getBlockList agent src s) of Inl e \<Rightarrow> Some e | Inr blocks \<Rightarrow> None)
   \<and> (\<forall>block rest index nblocks s0 e s1 ev1.
        getBlockMetadata json agent block s0 = (Inl e, s1, ev1) \<longrightarrow>
        lightenBlocks collector json agent index nblocks (block # rest) s0 =
          (fst (lightenBlocks collector json agent (index + 1) nblocks rest s1),
           [CallExecuteCommand (''cat '' @ block @ ''/meta.json''),
            Log None WarnLevel [LStr (''Ignoring block ('' @ block @ ''): '' @ error_Error e)]]
           @ snd (lightenBlocks collector json agent (index + 1) nblocks rest s1)))
   \<and> (\<forall>blocks s1 ev1.
        getBlockList agent src s = (Inr blocks, s1, ev1) \<longrightarrow>
        lightenSnapshot collector json agent src s =
          (None, fst (lightenBlocks collector json agent 0 (length blocks) blocks s1),
           CallExecuteCommand (getSnapshotBlockListTemplate src)
           # snd (lightenBlocks collector json agent 0 (length blocks) blocks s1))
        \<and> (\<forall>block \<in> set blocks.
              CallExecuteCommand (getSnapshotBlockMetadataTemplate block)
                \<in> set (snd (snd (lightenSnapshot collector json agent src s)))))
   \<and> (\<forall>pre block rest s1 ev1 e s2 ev2.
        getBlockList agent src s = (Inr (pre @ block # rest), s1, ev1)
        \<and> getBlockMetadata json agent block
              (fst (lightenBlocks collector json agent 0 (length (pre @ block # rest)) pre s1))
            = (Inl e, s2, ev2) \<longrightarrow>
        lightenSnapshot collector json agent src s =
          (None,
           fst (lightenBlocks collector json agent (length pre + 1)
                  (length (pre @ block # rest)) rest s2),
           [CallExecuteCommand (getSnapshotBlockListTemplate src)]
           @ snd (lightenBlocks collector json agent 0 (length (pre @ block # rest)) pre s1)
           @ [CallExecuteCommand (getSnapshotBlockMetadataTemplate block),
              Log None WarnLevel [LStr (''Ignoring block ('' @ block @ ''): '' @ error_Error e)]]
           @ snd (lightenBlocks collector json agent (length pre + 1)
                    (length (pre @ block # rest)) rest s2)))"
proof -
  have a: "fst (lightenSnapshot collector json agent src s) =
     (case fst (getBlockList agent src s) of Inl e \<Rightarrow> Some e | Inr blocks \<Rightarrow> None)"
    by (simp add: lightenSnapshot_def split_beta Let_def split: sum.splits)
  have b: "lightenBlocks collector json agent index nblocks (block # rest) s0 =
          (fst (lightenBlocks collector json agent (index + 1) nblocks rest s1),
           [CallExecuteCommand (''cat '' @ block @ ''/meta.json''),
            Log None WarnLevel [LStr (''Ignoring block ('' @ block @ ''): '' @ error_Error e)]]
           @ snd (lightenBlocks collector json agent (index + 1) nblocks rest s1))"
    if "getBlockMetadata json agent block s0 = (Inl e, s1, ev1)"
    for block rest index nblocks s0 e s1 ev1
    using that by (rule lightenBlocks_failed_read)
  have c: "lightenSnapshot collector json agent src s =
          (None, fst (lightenBlocks collector json agent 0 (length blocks) blocks s1),
           CallExecuteCommand (getSnapshotBlockListTemplate src)
           # snd (lightenBlocks collector json agent 0 (length blocks) blocks s1))
        \<and> (\<forall>block \<in> set blocks.
              CallExecuteCommand (getSnapshotBlockMetadataTemplate block)
                \<in> set (snd (snd (lightenSnapshot collector json agent src s))))"
    if l: "getBlockList agent src s = (Inr blocks, s1, ev1)" for blocks s1 ev1
    using lightenBlocks_visits_all [of _ blocks collector json agent 0 "length blocks" s1]
    by (simp add: lightenSnapshot_listed [OF l])
  have d: "lightenSnapshot collector json agent src s =
          (None,
           fst (lightenBlocks collector json agent (length pre + 1)
                  (length (pre @ block # rest)) rest s2),
           [CallExecuteCommand (getSnapshotBlockListTemplate src)]
           @ snd (lightenBlocks collector json agent 0 (length (pre @ block # rest)) pre s1)
           @ [CallExecuteCommand (getSnapshotBlockMetadataTemplate block),
              Log None WarnLevel [LStr (''Ignoring block ('' @ block @ ''): '' @ error_Error e)]]
           @ snd (lightenBlocks collector json agent (length pre + 1)
                    (length (pre @ block # rest)) rest s2))"
    if l: "getBlockList agent src s = (Inr (pre @ block # rest), s1, ev1)"
      and m: "getBlockMetadata json agent block
              (fst (lightenBlocks collector json agent 0 (length (pre @ block # rest)) pre s1))
            = (Inl e, s2, ev2)"
    for pre block rest s1 ev1 e s2 ev2
  proof -
    note f = lightenBlocks_failed_read [OF m, of collector "0 + length pre"
        "length (pre @ block # rest)" rest]
    show ?thesis
      unfolding lightenSnapshot_listed [OF l]
        lightenBlocks_append [of collector json agent 0 _ pre "block # rest" s1] f
      by (simp add: getSnapshotBlockMetadataTemplate_def)
  qed
  from a b c d show ?thesis by blast
qed

theorem lightenSnapshot_only_listing_fails_witness:
  "lightenSnapshot (scenario_collector True) scenario_json failing_block_agent scenario_src 2
   = (None, 7,
      [CallExecuteCommand (''ls -d '' @ scenario_src @ ''/*/''),
       CallExecuteCommand (''cat '' @ blockA @ ''/meta.json''),
       Log None InfoLevel
         [LStr ''Block '', LInt 1, LStr ''/'', LInt 3, LStr '' '', LStr ''01A'', LStr ''  '',
          LTime (blockTimestamp 0), LStr '' .. '', LTime (blockTimestamp 500), LStr '': '',
          LStr ''will be skipped''],
       CallExecuteCommand (''rm -rf '' @ blockA),
       CallExecuteCommand (''cat '' @ blockD @ ''/meta.json''),
       Log None WarnLevel
         [LStr (''Ignoring block ('' @ blockD
                 @ ''): Failed to unmarshal block metadata (unexpected end of JSON input)'')],
       CallExecuteCommand (''cat '' @ blockB @ ''/meta.json''),
       Log None InfoLevel
         [LStr ''Block '', LInt 3, LStr ''/'', LInt 3, LStr '' '', LStr ''01B'', LStr ''  '',
          LTime (blockTimestamp 10000), LStr '' .. '', LTime (blockTimestamp 20000), LStr '': '',
          LStr ''falls into the time span'']])"
proof -
  note f = failing_block_steps
  have listed: "getBlockList failing_block_agent scenario_src 2
                = (Inr ([blockA] @ blockD # [blockB]), 3,
                   [CallExecuteCommand (''ls -d '' @ scenario_src @ ''/*/'')])"
    by (simp add: f(1))
  have failed: "getBlockMetadata scenario_json failing_block_agent blockD
                  (fst (lightenBlocks (scenario_collector True) scenario_json failing_block_agent
                          0 (length ([blockA] @ blockD # [blockB])) [blockA] 3))
                = (Inl (errors_New
                     ''Failed to unmarshal block metadata (unexpected end of JSON input)''),
                   6, [CallExecuteCommand (''cat '' @ blockD @ ''/meta.json'')])"
    by (simp add: f(2) f(4))
  from lightenSnapshot_only_listing_fails
    [THEN conjunct2, THEN conjunct2, THEN conjunct2, rule_format, OF conjI [OF listed failed]]
  show ?thesis
    by (simp add: f(2) f(3) getSnapshotBlockListTemplate_def getSnapshotBlockMetadataTemplate_def)
qed

text \<open>
  C5. Once the run has reached the download, what it returns is what the remove of
  the transfer resource returns, whatever the download returned: a failed download
  followed by a successful remove gives success, and a failed remove gives the
  remove's error. The failed download is logged as an error.
\<close>

theorem Collect_returns_final_cleanup:
  fixes agent :: "'s SSHCollectingAgent" and collector :: MetricsCollector and snapshot :: string
  defines "src \<equiv> filepath_Join [DataPath (Prometheus (Settings collector)),
                                 prometheusSnapshotFolder, snapshot]"
      and "dest \<equiv> filepath_Join [Path collector, ''snapshot'']"
  assumes connect: "Connect agent s0 = (None, s1)"
      and create: "createSnapshot collector json agent s1 = (Inr snapshot, s2, evs)"
      and lighten: "lightenSnapshot collector json agent src s2 = (lerr, s3, evl)"
      and stage: "(\<not> CopyCompressed (Settings collector) \<and> resource = src \<and> s5 = s3)
                \<or> (CopyCompressed (Settings collector) \<and> resource = temporalSnapshotTarballPath
                   \<and> tarballSnapshot agent src temporalSnapshotTarballPath s3 = (None, s4, evt)
                   \<and> removeResource agent src s4 = (rerr, s5, evr))"
      and download: "downloadSnapshot agent resource dest s5 = (derr, s6, evd)"
      and cleanup: "removeResource agent resource s6 = (cerr, s7, evf)"
  shows "fst (Collect collector json agent s0) = cerr
       \<and> (derr \<noteq> None \<and> cerr = None \<longrightarrow> fst (Collect collector json agent s0) = None)
       \<and> (\<forall>e. cerr = Some e \<longrightarrow> fst (Collect collector json agent s0) = Some e)
       \<and> (\<forall>e. derr = Some e \<longrightarrow>
            Log (Some (''MC '' @ GetHost agent)) ErrorLevel [LErr e]
              \<in> set (snd (snd (Collect collector json agent s0))))"
  using stage
proof (elim disjE conjE)
  assume plain: "\<not> CopyCompressed (Settings collector)" and r: "resource = src" and s: "s5 = s3"
  note run = Collect_uncompressed [OF plain connect create lighten [unfolded src_def]
      download [unfolded r s src_def dest_def] cleanup [unfolded r src_def]]
  show ?thesis
    by (simp add: run split: option.splits)
next
  assume compressed: "CopyCompressed (Settings collector)"
    and r: "resource = temporalSnapshotTarballPath"
    and tarball: "tarballSnapshot agent src temporalSnapshotTarballPath s3 = (None, s4, evt)"
    and remove: "removeResource agent src s4 = (rerr, s5, evr)"
  note run = Collect_tarball_made [OF compressed connect create lighten [unfolded src_def]
      tarball [unfolded src_def] remove [unfolded src_def] download [unfolded r dest_def]
      cleanup [unfolded r]]
  show ?thesis
    by (simp add: run split: option.splits)
qed

theorem Collect_returns_final_cleanup_witness:
  "fst (Collect (scenario_collector True) scenario_json
          (scenario_agent [] (Some (errors_New ''connection reset''))) 0) = None
   \<and> Log (Some ''MC node1'') ErrorLevel
         [LErr (errors_New ''Failed to receive snapshot (connection reset)'')]
       \<in> set (snd (snd (Collect (scenario_collector True) scenario_json
                           (scenario_agent [] (Some (errors_New ''connection reset''))) 0)))
   \<and> fst (Collect (scenario_collector True) scenario_json (cleanup_failure_agent None) 0)
       = Some (errors_New (''Failed to remove resource '' @ [CHR 0x27]
                 @ ''/tmp/InstaclustrCollection.tar'' @ [CHR 0x27] @ '' (connection lost)''))
   \<and> fst (Collect (scenario_collector True) scenario_json
            (cleanup_failure_agent (Some (errors_New ''connection reset''))) 0)
       = Some (errors_New (''Failed to remove resource '' @ [CHR 0x27]
                 @ ''/tmp/InstaclustrCollection.tar'' @ [CHR 0x27] @ '' (connection lost)''))
   \<and> fst (Collect (scenario_collector False) scenario_json
            (scenario_agent [] (Some (errors_New ''connection reset''))) 0) = None"
proof -
  note a = scenario_steps [OF scenario_quiet(1)]
  note b = scenario_steps [OF scenario_quiet(2), folded cleanup_failure_agent_def]
  have on: "CopyCompressed (Settings (scenario_collector True))"
    and off: "\<not> CopyCompressed (Settings (scenario_collector False))"
    by (simp_all add: scenario_collector_def)
  have ok: "removeResource (scenario_agent [] recv) temporalSnapshotTarballPath s
            = (None, Suc s, [CallExecuteCommand (''rm -rf '' @ temporalSnapshotTarballPath)])"
    for recv s
    by (rule scenario_remove [OF no_extra])
  have lost: "removeResource (cleanup_failure_agent recv) temporalSnapshotTarballPath s
            = (Some (errors_New (''Failed to remove resource '' @ [CHR 0x27]
                 @ temporalSnapshotTarballPath @ [CHR 0x27] @ '' (''
                 @ error_Error (errors_New ''connection lost'') @ '')'')),
               Suc s, [CallExecuteCommand (''rm -rf '' @ temporalSnapshotTarballPath)])"
    for recv s
    unfolding cleanup_failure_agent_def
    by (rule scenario_remove_failing [where sout = "[]" and serr = "[]"])
       (simp add: temporalSnapshotTarballPath_def)
  have dl: "downloadSnapshot (cleanup_failure_agent recv) src dest s
            = (case recv of
                 None \<Rightarrow> None
               | Some e \<Rightarrow> Some (errors_New (''Failed to receive snapshot (''
                                        @ error_Error e @ '')'')),
               Suc s, [CallReceiveDir src dest])"
    for recv src dest s
    unfolding cleanup_failure_agent_def by (rule scenario_downloadSnapshot)
  have w1: "fst (Collect (scenario_collector True) scenario_json
          (scenario_agent [] (Some (errors_New ''connection reset''))) 0) = None
   \<and> Log (Some ''MC node1'') ErrorLevel
         [LErr (errors_New ''Failed to receive snapshot (connection reset)'')]
       \<in> set (snd (snd (Collect (scenario_collector True) scenario_json
                           (scenario_agent [] (Some (errors_New ''connection reset''))) 0)))"
    using Collect_returns_final_cleanup
        [OF a(1) [where recv = "Some (errors_New ''connection reset'')" and s = 0] a(2) a(3)
          disjI2 [OF conjI [OF on conjI [OF refl conjI [OF a(4) a(5)]]]]
          scenario_downloadSnapshot ok]
    by (simp add: a(6))
  have w2: "fst (Collect (scenario_collector True) scenario_json (cleanup_failure_agent None) 0)
       = Some (errors_New (''Failed to remove resource '' @ [CHR 0x27]
                 @ ''/tmp/InstaclustrCollection.tar'' @ [CHR 0x27] @ '' (connection lost)''))"
    using Collect_returns_final_cleanup
        [OF b(1) [where recv = None and s = 0] b(2) b(3)
          disjI2 [OF conjI [OF on conjI [OF refl conjI [OF b(4) b(5)]]]]
          dl lost]
    by (simp add: temporalSnapshotTarballPath_def)
  have w3: "fst (Collect (scenario_collector True) scenario_json
            (cleanup_failure_agent (Some (errors_New ''connection reset''))) 0)
       = Some (errors_New (''Failed to remove resource '' @ [CHR 0x27]
                 @ ''/tmp/InstaclustrCollection.tar'' @ [CHR 0x27] @ '' (connection lost)''))"
    using Collect_returns_final_cleanup
        [OF b(1) [where recv = "Some (errors_New ''connection reset'')" and s = 0] b(2) b(3)
          disjI2 [OF conjI [OF on conjI [OF refl conjI [OF b(4) b(5)]]]]
          dl lost]
    by (simp add: temporalSnapshotTarballPath_def)
  have w4: "fst (Collect (scenario_collector False) scenario_json
            (scenario_agent [] (Some (errors_New ''connection reset''))) 0) = None"
    using Collect_returns_final_cleanup
        [OF a(1) [where recv = "Some (errors_New ''connection reset'')" and s = 0] a(2) a(3)
          disjI1 [OF conjI [OF off conjI [OF refl refl]]]
          scenario_downloadSnapshot a(5)]
    by simp
  from w1 w2 w3 w4 show ?thesis by simp
qed

text \<open>
  C6. \<open>createSnapshot\<close> fails when the command wrote to its standard error, when
  its standard output does not decode, and when the decoded status is not
  \<^verbatim>\<open>success\<close>; where the decoded status is what stops it, the error names the status
  and the remote error text. When it succeeds, it returns the decoded \<^verbatim>\<open>data.name\<close>.
  On the response \<^verbatim>\<open>{"status":"error","error":"out of space"}\<close> the error reads
  \<^verbatim>\<open>Failed to create prometheus snapshot (status: error 'out of space')\<close>, and the
  whole run returns it.
\<close>

theorem createSnapshot_outcomes:
  assumes "ExecuteCommand agent
             (prometheusCreateSnapshotTemplate (Port (Prometheus (Settings collector)))) s
           = ((sout, serr, err), s')"
  shows "(serr \<noteq> [] \<longrightarrow> isl (fst (createSnapshot collector json agent s)))
       \<and> (\<forall>e. Unmarshal_PrometheusSnapshotResponse json sout = Inl e \<longrightarrow>
              isl (fst (createSnapshot collector json agent s)))
       \<and> (\<forall>response.
              Unmarshal_PrometheusSnapshotResponse json sout = Inr response
              \<and> Status response \<noteq> ''success'' \<longrightarrow>
              isl (fst (createSnapshot collector json agent s))
              \<and> (err = None \<and> serr = [] \<longrightarrow>
                   fst (createSnapshot collector json agent s) =
                     Inl (errors_New (''Failed to create prometheus snapshot (status: ''
                            @ Status response @ '' '' @ [CHR 0x27] @ Error response
                            @ [CHR 0x27] @ '')''))))
       \<and> (\<forall>name. fst (createSnapshot collector json agent s) = Inr name \<longrightarrow>
              err = None \<and> serr = []
              \<and> (\<exists>response. Unmarshal_PrometheusSnapshotResponse json sout = Inr response
                     \<and> Status response = ''success'' \<and> name = Name (Data response)))
       \<and> (\<forall>response.
              err = None \<and> serr = []
              \<and> Unmarshal_PrometheusSnapshotResponse json sout = Inr response
              \<and> Status response = ''success'' \<longrightarrow>
              fst (createSnapshot collector json agent s) = Inr (Name (Data response)))
       \<and> Collect (scenario_collector compressed) scenario_json
            (scenario_agent [(scenario_create, (response_error, [], None))] recv) s0
          = (Some (errors_New (''Failed to create prometheus snapshot (status: error ''
                      @ [CHR 0x27] @ ''out of space'' @ [CHR 0x27] @ '')'')),
             Suc (Suc s0),
             [Log (Some ''MC node1'') InfoLevel [LStr ''Metrics collecting started''],
              CallConnect,
              Log (Some ''MC node1'') InfoLevel [LStr ''Creating snapshot...''],
              CallExecuteCommand scenario_create,
              Log (Some ''MC node1'') ErrorLevel
                [LErr (errors_New (''Failed to create prometheus snapshot (status: error ''
                      @ [CHR 0x27] @ ''out of space'' @ [CHR 0x27] @ '')''))]])"
proof -
  have run: "createSnapshot (scenario_collector compressed) scenario_json
               (scenario_agent [(scenario_create, (response_error, [], None))] recv) (Suc s0)
             = (Inl (errors_New (''Failed to create prometheus snapshot (status: error ''
                      @ [CHR 0x27] @ ''out of space'' @ [CHR 0x27] @ '')'')),
                Suc (Suc s0), [CallExecuteCommand scenario_create])"
    by (simp add: createSnapshot_def scenario_create_command agent_ExecuteCommand_def
        scenario_execute scenario_json_def table_json_def prometheusSnapshotSuccess_def
        scenario_texts)
  have scenario: "Collect (scenario_collector compressed) scenario_json
            (scenario_agent [(scenario_create, (response_error, [], None))] recv) s0
          = (Some (errors_New (''Failed to create prometheus snapshot (status: error ''
                      @ [CHR 0x27] @ ''out of space'' @ [CHR 0x27] @ '')'')),
             Suc (Suc s0),
             [Log (Some ''MC node1'') InfoLevel [LStr ''Metrics collecting started''],
              CallConnect,
              Log (Some ''MC node1'') InfoLevel [LStr ''Creating snapshot...''],
              CallExecuteCommand scenario_create,
              Log (Some ''MC node1'') ErrorLevel
                [LErr (errors_New (''Failed to create prometheus snapshot (status: error ''
                      @ [CHR 0x27] @ ''out of space'' @ [CHR 0x27] @ '')''))]])"
    by (simp add: Collect_def Let_def agent_Connect_def scenario_agent_calls run)
  show ?thesis
    using assms
    by (auto simp: createSnapshot_def agent_ExecuteCommand_def Let_def
        prometheusSnapshotSuccess_def scenario split: option.splits sum.splits)
qed

theorem createSnapshot_outcomes_witness:
  "isl (fst (createSnapshot (scenario_collector True) scenario_json
          (scenario_agent [(scenario_create, ([], ''curl: (7) Failed to connect'', None))] None) 1))
   \<and> isl (fst (createSnapshot (scenario_collector True) scenario_json
          (scenario_agent [(scenario_create, (''<html>'', [], None))] None) 1))
   \<and> fst (createSnapshot (scenario_collector True) scenario_json
          (scenario_agent [(scenario_create, (response_error, [], None))] None) 1)
       = Inl (errors_New (''Failed to create prometheus snapshot (status: error ''
                @ [CHR 0x27] @ ''out of space'' @ [CHR 0x27] @ '')''))
   \<and> fst (createSnapshot (scenario_collector True) scenario_json (scenario_agent [] None) 1)
       = Inr scenario_name"
proof -
  have c1: "isl (fst (createSnapshot (scenario_collector True) scenario_json
          (scenario_agent [(scenario_create, ([], ''curl: (7) Failed to connect'', None))] None) 1))"
    using createSnapshot_outcomes [OF scenario_create_reply
          [where reply = "([], ''curl: (7) Failed to connect'', None)" and extra = "[]"
             and recv = None and compressed = True and s = 1],
        where json = scenario_json, THEN conjunct1]
    by simp
  have c2: "isl (fst (createSnapshot (scenario_collector True) scenario_json
          (scenario_agent [(scenario_create, (''<html>'', [], None))] None) 1))"
    using createSnapshot_outcomes [OF scenario_create_reply
          [where reply = "(''<html>'', [], None)" and extra = "[]"
             and recv = None and compressed = True and s = 1],
        where json = scenario_json, THEN conjunct2, THEN conjunct1]
    by (simp add: scenario_decode)
  have c3: "fst (createSnapshot (scenario_collector True) scenario_json
          (scenario_agent [(scenario_create, (response_error, [], None))] None) 1)
       = Inl (errors_New (''Failed to create prometheus snapshot (status: error ''
                @ [CHR 0x27] @ ''out of space'' @ [CHR 0x27] @ '')''))"
    using createSnapshot_outcomes [OF scenario_create_reply
          [where reply = "(response_error, [], None)" and extra = "[]"
             and recv = None and compressed = True and s = 1],
        where json = scenario_json, THEN conjunct2, THEN conjunct2, THEN conjunct1]
    by (simp add: scenario_decode)
  have ok: "ExecuteCommand (scenario_agent [] None)
     (prometheusCreateSnapshotTemplate (Port (Prometheus (Settings (scenario_collector True)))))
     1 = ((response_ok, [], None), Suc 1)"
    by (rule scenario_create_ok [OF no_extra])
  have c4: "fst (createSnapshot (scenario_collector True) scenario_json (scenario_agent [] None) 1)
       = Inr scenario_name"
    using createSnapshot_outcomes [OF ok,
        where json = scenario_json,
        THEN conjunct2, THEN conjunct2, THEN conjunct2, THEN conjunct2, THEN conjunct1]
    by (simp add: scenario_decode)
  from c1 c2 c3 c4 show ?thesis by simp
qed

text \<open>
  C7. A block whose metadata was read and decoded, with a version other than 1, is left
  alone whatever its time range and the window are: the pass of the loop for it only
  reads the metadata and logs the warning, and issues no remove command at all.
\<close>

theorem lightenBlock_unsupported_version:
  assumes "getBlockMetadata json agent block s = (Inr metadata, s1, ev1)"
      and "Version metadata \<noteq> 1"
  shows "lightenBlock collector json agent index nblocks block s =
           (s1, [CallExecuteCommand (''cat '' @ block @ ''/meta.json''),
                 Log None WarnLevel
                   [LStr ''Ignoring block ('', LStr block, LStr ''): version #'',
                    LInt (Version metadata), LStr '' unsupported'']])
         \<and> (\<forall>path. CallExecuteCommand (prometheusRemoveResourceTemplate path)
                \<notin> set (snd (lightenBlock collector json agent index nblocks block s)))"
proof -
  have ev1: "ev1 = [CallExecuteCommand (''cat '' @ block @ ''/meta.json'')]"
    using getBlockMetadata_events [of json agent block s] assms(1) by simp
  show ?thesis
    using assms by (simp add: lightenBlock_def ev1 prometheusRemoveResourceTemplate_def)
qed

theorem lightenBlock_unsupported_version_witness:
  "lightenBlock (scenario_collector True) scenario_json (scenario_agent [] None) 2 3 blockC 7 =
     (8, [CallExecuteCommand (''cat '' @ blockC @ ''/meta.json''),
          Log None WarnLevel
            [LStr ''Ignoring block ('', LStr blockC, LStr ''): version #'', LInt 2,
             LStr '' unsupported'']])
   \<and> CallExecuteCommand (''rm -rf '' @ blockC)
       \<notin> set (snd (lightenBlock (scenario_collector True) scenario_json (scenario_agent [] None)
                       2 3 blockC 7))"
proof -
  have v: "Version metaC \<noteq> 1" by (simp add: metaC_def)
  show ?thesis
    using lightenBlock_unsupported_version [OF scenario_metaC [OF no_extra, of None 7] v,
        where collector = "scenario_collector True" and index = 2 and nblocks = 3]
    by (simp add: metaC_def prometheusRemoveResourceTemplate_def)
qed

text \<open>
  C8. Once the snapshot is made and lightened, the one download of the run and its
  last remove are given the tarball path when \<open>CopyCompressed\<close> is set and the
  tarball step succeeded, and the snapshot directory when \<open>CopyCompressed\<close> is not
  set: in that case no tarball command is issued and the directory is the only
  resource the run passes on. When the tarball step failed there is neither a
  download nor a last remove.
\<close>

theorem Collect_transfer_resource:
  fixes agent :: "'s SSHCollectingAgent" and collector :: MetricsCollector and snapshot :: string
  defines "src \<equiv> filepath_Join [DataPath (Prometheus (Settings collector)),
                                 prometheusSnapshotFolder, snapshot]"
      and "dest \<equiv> filepath_Join [Path collector, ''snapshot'']"
      and "create_command \<equiv>
             prometheusCreateSnapshotTemplate (Port (Prometheus (Settings collector)))"
  assumes connect: "Connect agent s0 = (None, s1)"
      and create: "createSnapshot collector json agent s1 = (Inr snapshot, s2, evs)"
      and lighten: "lightenSnapshot collector json agent src s2 = (lerr, s3, evl)"
  shows "(\<not> CopyCompressed (Settings collector) \<longrightarrow>
            received (snd (snd (Collect collector json agent s0))) = [(src, dest)]
            \<and> executed (snd (snd (Collect collector json agent s0)))
                = [create_command] @ executed evl @ [prometheusRemoveResourceTemplate src])
       \<and> (CopyCompressed (Settings collector)
            \<and> fst (tarballSnapshot agent src temporalSnapshotTarballPath s3) = None \<longrightarrow>
            received (snd (snd (Collect collector json agent s0)))
              = [(temporalSnapshotTarballPath, dest)]
            \<and> executed (snd (snd (Collect collector json agent s0)))
                = [create_command] @ executed evl
                  @ [createSnapshotTarballTemplate temporalSnapshotTarballPath src,
                     prometheusRemoveResourceTemplate src,
                     prometheusRemoveResourceTemplate temporalSnapshotTarballPath])
       \<and> (CopyCompressed (Settings collector)
            \<and> fst (tarballSnapshot agent src temporalSnapshotTarballPath s3) \<noteq> None \<longrightarrow>
            received (snd (snd (Collect collector json agent s0))) = []
            \<and> executed (snd (snd (Collect collector json agent s0)))
                = [create_command] @ executed evl
                  @ [createSnapshotTarballTemplate temporalSnapshotTarballPath src,
                     prometheusRemoveResourceTemplate src])"
  unfolding src_def dest_def create_command_def
  by (rule Collect_commands [OF connect create lighten [unfolded src_def]])

theorem Collect_transfer_resource_witness:
  "received (snd (snd (Collect (scenario_collector False) scenario_json (scenario_agent [] None) 0)))
     = [(scenario_src, ''/tmp/collection/node1/snapshot'')]
   \<and> executed (snd (snd (Collect (scenario_collector False) scenario_json
                             (scenario_agent [] None) 0)))
       = [scenario_create] @ executed scenario_lightening @ [''rm -rf '' @ scenario_src]
   \<and> received (snd (snd (Collect (scenario_collector True) scenario_json
                             (scenario_agent [] None) 0)))
       = [(''/tmp/InstaclustrCollection.tar'', ''/tmp/collection/node1/snapshot'')]
   \<and> executed (snd (snd (Collect (scenario_collector True) scenario_json
                             (scenario_agent [] None) 0)))
       = [scenario_create] @ executed scenario_lightening
         @ [scenario_tarball, ''rm -rf '' @ scenario_src, ''rm -rf /tmp/InstaclustrCollection.tar'']
   \<and> received (snd (snd (Collect (scenario_collector True) scenario_json
                             tarball_failure_agent 0))) = []
   \<and> executed (snd (snd (Collect (scenario_collector True) scenario_json
                             tarball_failure_agent 0)))
       = [scenario_create] @ executed scenario_lightening
         @ [scenario_tarball, ''rm -rf '' @ scenario_src]"
proof -
  note f = tarball_failure_steps
  note failed = Collect_transfer_resource [OF f(1) [of 0] f(2) f(3),
      where compressed1 = True, THEN conjunct2, THEN conjunct2, THEN mp]
  have tf: "fst (tarballSnapshot tarball_failure_agent
                  (filepath_Join [DataPath (Prometheus (Settings (scenario_collector True))),
                                  prometheusSnapshotFolder, scenario_name])
                  temporalSnapshotTarballPath s) \<noteq> None" for s
    by (simp add: f(4))
  note a = scenario_steps [OF scenario_quiet(1)]
  have on: "CopyCompressed (Settings (scenario_collector True))"
    and off: "\<not> CopyCompressed (Settings (scenario_collector False))"
    by (simp_all add: scenario_collector_def)
  note plain = Collect_transfer_resource [OF a(1) [where recv = None and s = 0] a(2) a(3),
      where compressed1 = False, THEN conjunct1, THEN mp, OF off]
  note tarred = Collect_transfer_resource [OF a(1) [where recv = None and s = 0] a(2) a(3),
      where compressed1 = True, THEN conjunct2, THEN conjunct1, THEN mp]
  have t: "fst (tarballSnapshot (scenario_agent [] None)
                  (filepath_Join [DataPath (Prometheus (Settings (scenario_collector True))),
                                  prometheusSnapshotFolder, scenario_name])
                  temporalSnapshotTarballPath s) = None" for s
    by (simp add: a(4))
  from plain
  have p: "received (snd (snd (Collect (scenario_collector False) scenario_json
                                 (scenario_agent [] None) 0)))
            = [(scenario_src, ''/tmp/collection/node1/snapshot'')]
         \<and> executed (snd (snd (Collect (scenario_collector False) scenario_json
                                   (scenario_agent [] None) 0)))
            = [scenario_create] @ executed scenario_lightening @ [''rm -rf '' @ scenario_src]"
    by (simp add: scenario_create_command scenario_src_eq scenario_dest_eq
        prometheusRemoveResourceTemplate_def)
  from tarred [OF conjI [OF on t]]
  have q: "received (snd (snd (Collect (scenario_collector True) scenario_json
                                 (scenario_agent [] None) 0)))
            = [(temporalSnapshotTarballPath, ''/tmp/collection/node1/snapshot'')]
         \<and> executed (snd (snd (Collect (scenario_collector True) scenario_json
                                   (scenario_agent [] None) 0)))
            = [scenario_create] @ executed scenario_lightening
              @ [scenario_tarball, ''rm -rf '' @ scenario_src,
                 ''rm -rf '' @ temporalSnapshotTarballPath]"
    by (simp add: scenario_create_command scenario_src_eq scenario_dest_eq
        scenario_tarball_command prometheusRemoveResourceTemplate_def)
  from failed [OF conjI [OF on tf]]
  have r: "received (snd (snd (Collect (scenario_collector True) scenario_json
                                 tarball_failure_agent 0))) = []
         \<and> executed (snd (snd (Collect (scenario_collector True) scenario_json
                                   tarball_failure_agent 0)))
            = [scenario_create] @ executed scenario_lightening
              @ [scenario_tarball, ''rm -rf '' @ scenario_src]"
    by (simp add: scenario_create_command scenario_src_eq scenario_tarball_command
        prometheusRemoveResourceTemplate_def)
  from p q r show ?thesis
    by (simp add: temporalSnapshotTarballPath_def)
qed

text \<open>
  C9. For every \<^verbatim>\<open>int64\<close> number of milliseconds \<open>ms\<close>, negative ones included, the
  timestamp the filter computes from it (lines 189 and 190) is the instant
  \<open>ms * 1000000\<close> nanoseconds after the Unix epoch: the milliseconds below the second
  are kept, as nanoseconds between 0 and 999999999, and no step of the conversion
  overflows.
\<close>

theorem blockTimestamp_nanoseconds:
  "unix_nanos (blockTimestamp ms) = sint ms * 1000000
   \<and> 0 \<le> sint (Time_nsec (blockTimestamp ms))
   \<and> sint (Time_nsec (blockTimestamp ms)) < 1000000000
   \<and> blockTimestamp ms = time_Unix (int64_quo ms 1000) (int64_rem ms 1000 * 1000000)"
  using time_Unix_of_millis [of ms] by (simp add: blockTimestamp_def time_UTC_def)

text \<open>
  C10. When the create command answers with status \<^verbatim>\<open>success\<close> and an empty (or
  missing, which the decoder leaves empty) \<^verbatim>\<open>data.name\<close>, \<open>createSnapshot\<close> returns
  the empty name and no error. The run goes on with the snapshots directory itself,
  \<open>filepath_Join [DataPath, ''snapshots'']\<close> (\<^verbatim>\<open>/var/data/snapshots\<close> under the
  default settings), as the snapshot path: that directory is listed and lightened,
  then downloaded and removed, or, with \<open>CopyCompressed\<close>, packed into the tarball
  and removed.
\<close>

theorem Collect_empty_snapshot_name:
  fixes agent :: "'s SSHCollectingAgent" and collector :: MetricsCollector
  defines "root \<equiv> filepath_Join [DataPath (Prometheus (Settings collector)),
                                  prometheusSnapshotFolder]"
      and "dest \<equiv> filepath_Join [Path collector, ''snapshot'']"
      and "create_command \<equiv>
             prometheusCreateSnapshotTemplate (Port (Prometheus (Settings collector)))"
  assumes connect: "Connect agent s0 = (None, s1)"
      and exec: "ExecuteCommand agent create_command s1 = ((sout, [], None), s2)"
      and decode: "Unmarshal_PrometheusSnapshotResponse json sout = Inr response"
      and status: "Status response = ''success''"
      and name: "Name (Data response) = []"
      and lighten: "lightenSnapshot collector json agent root s2 = (lerr, s3, evl)"
  shows "createSnapshot collector json agent s1
           = (Inr [], s2, [CallExecuteCommand create_command])
       \<and> filepath_Join [DataPath (Prometheus (Settings collector)), prometheusSnapshotFolder, []]
           = root
       \<and> (\<exists>more. executed evl = getSnapshotBlockListTemplate root # more)
       \<and> (\<not> CopyCompressed (Settings collector) \<longrightarrow>
            received (snd (snd (Collect collector json agent s0))) = [(root, dest)]
            \<and> executed (snd (snd (Collect collector json agent s0)))
                = [create_command] @ executed evl @ [prometheusRemoveResourceTemplate root])
       \<and> (CopyCompressed (Settings collector) \<longrightarrow>
            executed (snd (snd (Collect collector json agent s0)))
              = [create_command] @ executed evl
                @ [createSnapshotTarballTemplate temporalSnapshotTarballPath root,
                   prometheusRemoveResourceTemplate root]
                @ (if fst (tarballSnapshot agent root temporalSnapshotTarballPath s3) = None
                   then [prometheusRemoveResourceTemplate temporalSnapshotTarballPath] else [])
            \<and> received (snd (snd (Collect collector json agent s0)))
                = (if fst (tarballSnapshot agent root temporalSnapshotTarballPath s3) = None
                   then [(temporalSnapshotTarballPath, dest)] else []))
       \<and> filepath_Join [DataPath (Prometheus MetricsCollectorDefaultSettings),
                         prometheusSnapshotFolder] = ''/var/data/snapshots''"
proof -
  have create: "createSnapshot collector json agent s1
                  = (Inr [], s2, [CallExecuteCommand create_command])"
    using exec decode status name
    by (simp add: createSnapshot_def agent_ExecuteCommand_def create_command_def Let_def
        prometheusSnapshotSuccess_def)
  have j: "filepath_Join [DataPath (Prometheus (Settings collector)), prometheusSnapshotFolder, []]
             = root"
    using filepath_Join_empty_last
      [of "[DataPath (Prometheus (Settings collector)), prometheusSnapshotFolder]"]
    by (simp add: root_def)
  have listed: "\<exists>more. executed evl = getSnapshotBlockListTemplate root # more"
    using lightenSnapshot_executed [of collector json agent root s2] lighten
    by (simp add: getSnapshotBlockListTemplate_def)
  note run = Collect_commands [OF connect create, unfolded j, OF lighten,
      folded dest_def create_command_def]
  from create j listed run show ?thesis
    by (simp add: default_snapshots_root)
qed

theorem Collect_empty_snapshot_name_witness:
  "createSnapshot (scenario_collector False) scenario_json noname_agent 1
     = (Inr [], 2, [CallExecuteCommand scenario_create])
   \<and> received (snd (snd (Collect (scenario_collector False) scenario_json noname_agent 0)))
       = [(''/var/data/snapshots'', ''/tmp/collection/node1/snapshot'')]
   \<and> executed (snd (snd (Collect (scenario_collector False) scenario_json noname_agent 0)))
       = [scenario_create, ''ls -d /var/data/snapshots/*/'', ''rm -rf /var/data/snapshots'']
   \<and> received (snd (snd (Collect (scenario_collector True) scenario_json noname_agent 0)))
       = [(''/tmp/InstaclustrCollection.tar'', ''/tmp/collection/node1/snapshot'')]
   \<and> executed (snd (snd (Collect (scenario_collector True) scenario_json noname_agent 0)))
       = [scenario_create, ''ls -d /var/data/snapshots/*/'',
          ''tar -cf /tmp/InstaclustrCollection.tar -C /var/data/snapshots .'',
          ''rm -rf /var/data/snapshots'', ''rm -rf /tmp/InstaclustrCollection.tar'']"
proof -
  note n = noname_steps
  have status: "Status \<lparr>Status = ''success'', Data = \<lparr>Name = []\<rparr>, Error = []\<rparr> = ''success''"
    and name: "Name (Data \<lparr>Status = ''success'', Data = \<lparr>Name = []\<rparr>, Error = []\<rparr>) = []"
    by simp_all
  have on: "CopyCompressed (Settings (scenario_collector True))"
    and off: "\<not> CopyCompressed (Settings (scenario_collector False))"
    by (simp_all add: scenario_collector_def)
  note plain = Collect_empty_snapshot_name [OF n(1) [of 0] n(2) [where compressed = False]
      scenario_decode(4) status name n(4)]
  note tarred = Collect_empty_snapshot_name [OF n(1) [of 0] n(2) [where compressed = True]
      scenario_decode(4) status name n(4)]
  from plain off
  have p: "createSnapshot (scenario_collector False) scenario_json noname_agent 1
             = (Inr [], 2, [CallExecuteCommand scenario_create])
         \<and> received (snd (snd (Collect (scenario_collector False) scenario_json noname_agent 0)))
             = [(''/var/data/snapshots'', ''/tmp/collection/node1/snapshot'')]
         \<and> executed (snd (snd (Collect (scenario_collector False) scenario_json noname_agent 0)))
             = [scenario_create, ''ls -d /var/data/snapshots/*/'', ''rm -rf /var/data/snapshots'']"
    by (simp add: n(3) scenario_create_command scenario_dest_eq
        prometheusRemoveResourceTemplate_def)
  from tarred on
  have q: "received (snd (snd (Collect (scenario_collector True) scenario_json noname_agent 0)))
             = [(temporalSnapshotTarballPath, ''/tmp/collection/node1/snapshot'')]
         \<and> executed (snd (snd (Collect (scenario_collector True) scenario_json noname_agent 0)))
             = [scenario_create, ''ls -d /var/data/snapshots/*/'',
                ''tar -cf /tmp/InstaclustrCollection.tar -C /var/data/snapshots .'',
                ''rm -rf /var/data/snapshots'', ''rm -rf '' @ temporalSnapshotTarballPath]"
    by (simp add: n(3) n(5) [unfolded n(3)] scenario_create_command scenario_dest_eq
        prometheusRemoveResourceTemplate_def)
       (simp add: createSnapshotTarballTemplate_def temporalSnapshotTarballPath_def)
  from p q show ?thesis
    by (simp add: temporalSnapshotTarballPath_def)
qed

end
